theory Spec2Isabelle
  imports Main "HOL-Library.Word" "HOL-Library.Sublist" "HOL-Library.Multiset"
begin

section \<open>JavaScript values\<close>

text \<open>
  The configuration fragments and the fingerprint cache are JSON documents held as plain
  JavaScript values. A value is \<open>undefined\<close>, \<open>null\<close>, a boolean, a number, a string, an
  array or an object; the last three constructors are what a plain object or an array
  inherits: the prototype objects \<open>Object.prototype\<close> and \<open>Array.prototype\<close>, and their
  built-in functions (named by their property name). An object is the list of its own
  enumerable properties in insertion order; \<open>plain\<close> below says that every key occurs once.
  (JavaScript visits the keys that are array indices before the others; the general
  statements below do not depend on the order, and no example has such a key.)

  Boundary of the model: numbers are integers (the code only tests them for truthiness);
  a string is a list of 8-bit characters; objects are trees (no sharing between two places
  of one value, no cycle); the prototype objects are the built-in ones and stay as they
  are. An operation whose run would change a prototype or replace the prototype of an
  object has the result \<open>None\<close> (nothing is said about it).
\<close>

datatype jsval =
    JUndefined
  | JNull
  | JBool bool
  | JNum int
  | JStr string
  | JArr "jsval list"
  | JObj "(string \<times> jsval) list"
  | JObjectPrototype
  | JArrayPrototype
  | JFunction string

type_synonym props = "(string \<times> jsval) list"

text \<open>\<open>!v\<close>: the values JavaScript treats as false.\<close>

fun falsy :: "jsval \<Rightarrow> bool" where
  "falsy JUndefined = True"
| "falsy JNull = True"
| "falsy (JBool b) = (\<not> b)"
| "falsy (JNum n) = (n = 0)"
| "falsy (JStr s) = (s = [])"
| "falsy (JArr xs) = False"
| "falsy (JObj m) = False"
| "falsy JObjectPrototype = False"
| "falsy JArrayPrototype = False"
| "falsy (JFunction n) = False"

text \<open>
  \<open>typeof v === 'object'\<close>: true of \<open>null\<close>, arrays, objects and the two prototype objects
  (a built-in function has the type \<open>function\<close>).
\<close>

fun typeofObject :: "jsval \<Rightarrow> bool" where
  "typeofObject JNull = True"
| "typeofObject (JArr xs) = True"
| "typeofObject (JObj m) = True"
| "typeofObject JObjectPrototype = True"
| "typeofObject JArrayPrototype = True"
| "typeofObject v = False"

text \<open>
  \<open>_isObject(obj)\<close>: \<open>obj !== null && typeof obj === 'object' && !Array.isArray(obj)\<close>.
  \<open>Array.isArray\<close> is true of \<open>Array.prototype\<close>.
\<close>

definition isObject :: "jsval \<Rightarrow> bool" where
  "isObject obj =
     (obj \<noteq> JNull \<and> typeofObject obj
      \<and> (case obj of JArr xs \<Rightarrow> False | JArrayPrototype \<Rightarrow> False | _ \<Rightarrow> True))"

text \<open>The decimal spelling of an array index, as property names have it.\<close>

definition digit :: "nat \<Rightarrow> char" where
  "digit d = char_of (48 + d)"

function show_nat :: "nat \<Rightarrow> string" where
  "show_nat n = (if n < 10 then [digit n] else show_nat (n div 10) @ [digit (n mod 10)])"
  by pat_completeness auto
termination
  by (relation "measure (\<lambda>n. n)") auto

declare show_nat.simps [simp del]

definition indexKeys :: "nat \<Rightarrow> string list" where
  "indexKeys n = map show_nat [0..<n]"

text \<open>
  The own enumerable properties of a value: what \<open>{...v}\<close> copies and what
  \<open>for (key in v)\<close> visits (nothing enumerable is inherited). An array has its indices, a
  string its characters, the other primitives and the built-in values nothing.
\<close>

fun ownEnumerable :: "jsval \<Rightarrow> props" where
  "ownEnumerable (JObj m) = m"
| "ownEnumerable (JArr xs) = zip (indexKeys (length xs)) xs"
| "ownEnumerable (JStr s) = zip (indexKeys (length s)) (map (\<lambda>c. JStr [c]) s)"
| "ownEnumerable v = []"

text \<open>
  The own properties of a JSON value: \<open>ownProp v key\<close> is \<open>None\<close> when \<open>v\<close> has no own
  property \<open>key\<close>. Besides its indices, an array or a string has \<open>length\<close>.
\<close>

fun ownProp :: "jsval \<Rightarrow> string \<Rightarrow> jsval option" where
  "ownProp (JObj m) key = map_of m key"
| "ownProp (JArr xs) key =
     (if key = ''length'' then Some (JNum (int (length xs)))
      else map_of (zip (indexKeys (length xs)) xs) key)"
| "ownProp (JStr s) key =
     (if key = ''length'' then Some (JNum (int (length s)))
      else map_of (zip (indexKeys (length s)) (map (\<lambda>c. JStr [c]) s)) key)"
| "ownProp v key = None"

text \<open>
  \<open>v[key]\<close> among the own properties only: used where the code reads the fingerprint
  cache.
\<close>

definition getProp :: "jsval \<Rightarrow> string \<Rightarrow> jsval" where
  "getProp v key = (case ownProp v key of None \<Rightarrow> JUndefined | Some x \<Rightarrow> x)"

subsection \<open>Inherited properties\<close>

text \<open>
  The property names of \<open>Object.prototype\<close>, and those of \<open>Array.prototype\<close> (ECMAScript
  2023) apart from \<open>length\<close>. All are built-in functions except \<open>__proto__\<close>, an accessor
  that reads and writes the prototype of the object it is used on.
\<close>

definition objectPrototypeNames :: "string list" where
  "objectPrototypeNames =
     [''constructor'', ''__defineGetter__'', ''__defineSetter__'', ''hasOwnProperty'',
      ''__lookupGetter__'', ''__lookupSetter__'', ''isPrototypeOf'', ''propertyIsEnumerable'',
      ''toString'', ''valueOf'', ''__proto__'', ''toLocaleString'']"

definition arrayPrototypeNames :: "string list" where
  "arrayPrototypeNames =
     [''at'', ''concat'', ''constructor'', ''copyWithin'', ''entries'', ''every'', ''fill'',
      ''filter'', ''find'', ''findIndex'', ''findLast'', ''findLastIndex'', ''flat'', ''flatMap'',
      ''forEach'', ''includes'', ''indexOf'', ''join'', ''keys'', ''lastIndexOf'', ''map'', ''pop'',
      ''push'', ''reduce'', ''reduceRight'', ''reverse'', ''shift'', ''slice'', ''some'', ''sort'',
      ''splice'', ''toLocaleString'', ''toReversed'', ''toSorted'', ''toSpliced'', ''toString'',
      ''unshift'', ''values'', ''with'']"

text \<open>
  What \<open>Object.prototype\<close> gives an object whose prototype chain ends there, for a key the
  object does not have itself; \<open>proto\<close> is the prototype of that object, which
  \<open>__proto__\<close> reads.
\<close>

definition fromObjectPrototype :: "jsval \<Rightarrow> string \<Rightarrow> jsval option" where
  "fromObjectPrototype proto key =
     (if key = ''__proto__'' then Some proto
      else if key \<in> set objectPrototypeNames then Some (JFunction key)
      else None)"

definition fromArrayPrototype :: "jsval \<Rightarrow> string \<Rightarrow> jsval option" where
  "fromArrayPrototype proto key =
     (if key \<in> set arrayPrototypeNames then Some (JFunction key)
      else fromObjectPrototype proto key)"

text \<open>
  The property a value has for a key that \<open>ownProp\<close> does not give: what an object or an
  array inherits, and what the two prototype objects hold or inherit. A built-in function
  and a primitive have properties too, but no code here looks into a function (its type
  is \<open>function\<close>), and of a primitive only \<open>_deepMerge\<close> reads \<open>target[key]\<close>, where a built-in
  function counts as \<open>undefined\<close> does (not an object).
\<close>

fun inherited :: "jsval \<Rightarrow> string \<Rightarrow> jsval option" where
  "inherited (JObj m) key = fromObjectPrototype JObjectPrototype key"
| "inherited (JArr xs) key = fromArrayPrototype JArrayPrototype key"
| "inherited JObjectPrototype key = fromObjectPrototype JNull key"
| "inherited JArrayPrototype key =
     (if key = ''length'' then Some (JNum 0) else fromArrayPrototype JObjectPrototype key)"
| "inherited v key = None"

text \<open>
  \<open>key in v\<close> and \<open>v[key]\<close> for an object, an array or a prototype object \<open>v\<close>:
  \<open>lookupIn v key\<close> is \<open>None\<close> when \<open>key in v\<close> is false, and \<open>readProp v key\<close> is
  \<open>undefined\<close> then.
\<close>

definition lookupIn :: "jsval \<Rightarrow> string \<Rightarrow> jsval option" where
  "lookupIn v key = (case ownProp v key of Some x \<Rightarrow> Some x | None \<Rightarrow> inherited v key)"

definition readProp :: "jsval \<Rightarrow> string \<Rightarrow> jsval" where
  "readProp v key = (case lookupIn v key of None \<Rightarrow> JUndefined | Some x \<Rightarrow> x)"

subsection \<open>Writing properties\<close>

text \<open>\<open>obj[key] = v\<close> on an own property of an object: the key keeps its place, a new key goes last.\<close>

fun setProp :: "string \<Rightarrow> jsval \<Rightarrow> props \<Rightarrow> props" where
  "setProp key v [] = [(key, v)]"
| "setProp key v ((k, x) # m) = (if k = key then (key, v) # m else (k, x) # setProp key v m)"

text \<open>
  \<open>obj[key] = v\<close> on an object. For every key but \<open>__proto__\<close>, and for \<open>__proto__\<close> when
  the object has it as an own property (as an object parsed from JSON can), the own
  property is written. Otherwise the assignment goes to the inherited accessor: it does
  nothing when \<open>v\<close> is a primitive, and replaces the prototype of the object when \<open>v\<close> is an
  object or \<open>null\<close>, which is \<open>None\<close> here.
\<close>

fun primitive :: "jsval \<Rightarrow> bool" where
  "primitive JUndefined = True"
| "primitive (JBool b) = True"
| "primitive (JNum n) = True"
| "primitive (JStr s) = True"
| "primitive v = False"

fun isFunction :: "jsval \<Rightarrow> bool" where
  "isFunction (JFunction f) = True"
| "isFunction v = False"

definition assignProp :: "string \<Rightarrow> jsval \<Rightarrow> props \<Rightarrow> props option" where
  "assignProp key v obj =
     (if key = ''__proto__'' \<and> map_of obj key = None
      then (if primitive v then Some obj else None)
      else Some (setProp key v obj))"

text \<open>\<open>delete obj[key]\<close> on an object.\<close>

definition deleteProp :: "string \<Rightarrow> props \<Rightarrow> props" where
  "deleteProp key m = filter (\<lambda>kv. fst kv \<noteq> key) m"

text \<open>
  A plain JSON value: every object inside it has each of its keys once and has neither
  the key \<open>hasOwnProperty\<close> nor the key \<open>__proto__\<close>, and no built-in value is inside it.
\<close>

fun plain :: "jsval \<Rightarrow> bool" where
  "plain (JObj m) =
     (distinct (map fst m) \<and> ''hasOwnProperty'' \<notin> set (map fst m) \<and> ''__proto__'' \<notin> set (map fst m)
      \<and> list_all (\<lambda>kv. plain (snd kv)) m)"
| "plain (JArr xs) = list_all plain xs"
| "plain JObjectPrototype = False"
| "plain JArrayPrototype = False"
| "plain (JFunction n) = False"
| "plain v = True"

section \<open>Errors\<close>

text \<open>
  The error classes of \<open>errors.js\<close> that the two components throw, and the built-in
  \<open>Error\<close> and \<open>TypeError\<close>; each carries its \<open>message\<close>, and \<open>error_name\<close> is the
  \<open>name\<close> property its constructor sets.
\<close>

datatype error =
    Error string
  | TypeError string
  | ValidationError string
  | FileSystemError string

fun error_message :: "error \<Rightarrow> string" where
  "error_message (Error msg) = msg"
| "error_message (TypeError msg) = msg"
| "error_message (ValidationError msg) = msg"
| "error_message (FileSystemError msg) = msg"

fun error_name :: "error \<Rightarrow> string" where
  "error_name (Error msg) = ''Error''"
| "error_name (TypeError msg) = ''TypeError''"
| "error_name (ValidationError msg) = ''ValidationError''"
| "error_name (FileSystemError msg) = ''FileSystemError''"

text \<open>An error inside a template literal: \<open>Error.prototype.toString\<close>.\<close>

definition errorToString :: "error \<Rightarrow> string" where
  "errorToString e =
     (if error_message e = [] then error_name e else error_name e @ '': '' @ error_message e)"

text \<open>
  \<open>new FileSystemError(operation, path, originalError)\<close>; an argument left out is
  \<open>undefined\<close>, here \<open>None\<close>. The message is
  \<open>Failed to ${operation} '${path}': ${errorMessage}\<close>.
\<close>

definition newFileSystemError :: "string \<Rightarrow> string option \<Rightarrow> error option \<Rightarrow> error" where
  "newFileSystemError operation path originalError =
     FileSystemError
       (''Failed to '' @ operation @ '' '' @ [CHR 0x27]
        @ (case path of None \<Rightarrow> ''undefined'' | Some p \<Rightarrow> p) @ [CHR 0x27] @ '': ''
        @ (case originalError of
             None \<Rightarrow> ''Unknown error''
           | Some e \<Rightarrow> if error_message e \<noteq> [] then error_message e else errorToString e))"

text \<open>
  The outcome of an operation that can throw: \<open>Some (Inr x)\<close> when it returns \<open>x\<close>,
  \<open>Some (Inl e)\<close> when it throws \<open>e\<close>, and \<open>None\<close> when its run leaves the model.
  \<open>andThen r f\<close> goes on with \<open>f\<close> when \<open>r\<close> returned.
\<close>

definition andThen :: "(error + 'a) option \<Rightarrow> ('a \<Rightarrow> (error + 'b) option) \<Rightarrow> (error + 'b) option" where
  "andThen r f = (case r of None \<Rightarrow> None | Some (Inl e) \<Rightarrow> Some (Inl e) | Some (Inr x) \<Rightarrow> f x)"

section \<open>ConfigurationManager: merging\<close>

text \<open>
  \<open>_deepMerge(target, source)\<close>. \<open>mergeLoop target source result entries\<close> is the \<open>for\<close>
  loop over the source's properties with \<open>result\<close> so far. Each round first calls
  \<open>source.hasOwnProperty(key)\<close>: when the source has an own property of that name whose
  value is not a function (as in JSON data), the call throws a \<open>TypeError\<close>; when the
  value is a function, that function is called: \<open>None\<close>. Where both
  \<open>source[key]\<close> and \<open>target[key]\<close> are objects the source calls
  \<open>_deepMerge(target[key], source[key])\<close>, here the loop on these two (lemma
  \<open>deepMerge_objects\<close>); with \<open>Object.prototype\<close> as \<open>source[key]\<close>, which has nothing
  enumerable, that call returns the copy of \<open>target[key]\<close>. \<open>result[key] = ...\<close> is
  \<open>assignProp\<close>.
\<close>

fun mergeLoop :: "jsval \<Rightarrow> jsval \<Rightarrow> props \<Rightarrow> props \<Rightarrow> (error + props) option" where
  "mergeLoop target source result [] = Some (Inr result)"
| "mergeLoop target source result ((key, JObj sv) # rest) =
     (if ownProp source ''hasOwnProperty'' \<noteq> None
      then (if isFunction (readProp source ''hasOwnProperty'') then None
            else Some (Inl (TypeError ''source.hasOwnProperty is not a function'')))
      else
        (case (if isObject (readProp target key)
               then (case mergeLoop (readProp target key) (JObj sv)
                            (ownEnumerable (readProp target key)) sv of
                       None \<Rightarrow> None
                     | Some (Inl e) \<Rightarrow> Some (Inl e)
                     | Some (Inr r) \<Rightarrow> Some (Inr (JObj r)))
               else Some (Inr (JObj sv))) of
           None \<Rightarrow> None
         | Some (Inl e) \<Rightarrow> Some (Inl e)
         | Some (Inr v) \<Rightarrow>
             (case assignProp key v result of
                None \<Rightarrow> None
              | Some result' \<Rightarrow> mergeLoop target source result' rest)))"
| "mergeLoop target source result ((key, JObjectPrototype) # rest) =
     (if ownProp source ''hasOwnProperty'' \<noteq> None
      then (if isFunction (readProp source ''hasOwnProperty'') then None
            else Some (Inl (TypeError ''source.hasOwnProperty is not a function'')))
      else
        (case assignProp key
                (if isObject (readProp target key) then JObj (ownEnumerable (readProp target key))
                 else JObjectPrototype) result of
           None \<Rightarrow> None
         | Some result' \<Rightarrow> mergeLoop target source result' rest))"
| "mergeLoop target source result ((key, v) # rest) =
     (if ownProp source ''hasOwnProperty'' \<noteq> None
      then (if isFunction (readProp source ''hasOwnProperty'') then None
            else Some (Inl (TypeError ''source.hasOwnProperty is not a function'')))
      else
        (case assignProp key v result of
           None \<Rightarrow> None
         | Some result' \<Rightarrow> mergeLoop target source result' rest))"

definition orEmpty :: "jsval \<Rightarrow> jsval" where
  "orEmpty v = (if falsy v then JObj [] else v)"

definition deepMerge :: "jsval \<Rightarrow> jsval \<Rightarrow> (error + props) option" where
  "deepMerge target source =
     (let target = orEmpty target; source = orEmpty source
      in mergeLoop target source (ownEnumerable target) (ownEnumerable source))"

text \<open>
  \<open>_sanitizeCliOptions\<close>: the own properties whose value is not \<open>undefined\<close>, assigned
  one by one to a new object; \<open>cliOptions.hasOwnProperty(key)\<close> throws as above.
\<close>

fun sanitizeLoop :: "jsval \<Rightarrow> props \<Rightarrow> props \<Rightarrow> (error + props) option" where
  "sanitizeLoop cliOptions sanitized [] = Some (Inr sanitized)"
| "sanitizeLoop cliOptions sanitized ((key, v) # rest) =
     (if ownProp cliOptions ''hasOwnProperty'' \<noteq> None
      then (if isFunction (readProp cliOptions ''hasOwnProperty'') then None
            else Some (Inl (TypeError ''cliOptions.hasOwnProperty is not a function'')))
      else if v \<noteq> JUndefined
        then (case assignProp key v sanitized of
                None \<Rightarrow> None
              | Some sanitized' \<Rightarrow> sanitizeLoop cliOptions sanitized' rest)
      else sanitizeLoop cliOptions sanitized rest)"

definition sanitizeCliOptions :: "jsval \<Rightarrow> (error + props) option" where
  "sanitizeCliOptions cliOptions = sanitizeLoop cliOptions [] (ownEnumerable cliOptions)"

text \<open>
  \<open>_mergeConfigurations\<close>: the arguments of the outer \<open>_deepMerge\<close> are evaluated from
  left to right.
\<close>

definition mergeConfigurations :: "jsval \<Rightarrow> jsval \<Rightarrow> jsval \<Rightarrow> (error + props) option" where
  "mergeConfigurations globalConfig projectConfig cliOptions =
     andThen (deepMerge globalConfig projectConfig) (\<lambda>lower.
       andThen (sanitizeCliOptions cliOptions) (\<lambda>sanitized.
         deepMerge (JObj lower) (JObj sanitized)))"

section \<open>ConfigurationManager: key paths\<close>

text \<open>\<open>keyPath.split('.')\<close>: never empty; \<open>''''\<close> splits into one empty segment.\<close>

fun splitDot :: "string \<Rightarrow> string list" where
  "splitDot [] = [[]]"
| "splitDot (c # cs) =
     (if c = CHR ''.'' then [] # splitDot cs
      else (case splitDot cs of [] \<Rightarrow> [[c]] | w # ws \<Rightarrow> (c # w) # ws))"

text \<open>
  The loop of \<open>_getNestedValue\<close>: a step goes through
  \<open>current && typeof current === 'object' && key in current\<close>, so through objects,
  arrays and prototype objects, by own and by inherited properties, and anything else on
  the way gives the default.
\<close>

fun getNestedKeys :: "jsval \<Rightarrow> string list \<Rightarrow> jsval \<Rightarrow> jsval" where
  "getNestedKeys current [] defaultValue = current"
| "getNestedKeys current (key # keys) defaultValue =
     (if \<not> falsy current \<and> typeofObject current \<and> lookupIn current key \<noteq> None
      then getNestedKeys (readProp current key) keys defaultValue
      else defaultValue)"

definition getNestedValue :: "jsval \<Rightarrow> string \<Rightarrow> jsval \<Rightarrow> jsval" where
  "getNestedValue obj keyPath defaultValue = getNestedKeys obj (splitDot keyPath) defaultValue"

text \<open>
  The loop of \<open>_setNestedValue\<close>, on the object \<open>current\<close>. The last key is assigned. An
  earlier key goes three ways by \<open>!(key in current) || !this._isObject(current[key])\<close>:
  an own property that is an object is entered; a key that is missing, or whose own or
  inherited value is not an object, is first set to a new \<open>{}\<close>, which is entered; and a
  key whose value is a prototype object (\<open>__proto__\<close>, when not own, reads
  \<open>Object.prototype\<close>) is entered too, so that the rest of the run writes into the
  prototype: \<open>None\<close>. \<open>split\<close> never gives the empty list, so the first equation is never
  reached from \<open>setNestedValue\<close>.
\<close>

fun setNestedKeys :: "props \<Rightarrow> string list \<Rightarrow> jsval \<Rightarrow> props option" where
  "setNestedKeys current [] v = Some current"
| "setNestedKeys current [lastKey] v = assignProp lastKey v current"
| "setNestedKeys current (key # keys) v =
     (case map_of current key of
        Some (JObj sub) \<Rightarrow>
          (case setNestedKeys sub keys v of
             None \<Rightarrow> None
           | Some sub' \<Rightarrow> Some (setProp key (JObj sub') current))
      | Some x \<Rightarrow>
          if isObject x then None
          else (case setNestedKeys [] keys v of
                  None \<Rightarrow> None
                | Some sub' \<Rightarrow> Some (setProp key (JObj sub') current))
      | None \<Rightarrow>
          if isObject (readProp (JObj current) key) then None
          else (case setNestedKeys [] keys v of
                  None \<Rightarrow> None
                | Some sub' \<Rightarrow> Some (setProp key (JObj sub') current)))"

definition setNestedValue :: "props \<Rightarrow> string \<Rightarrow> jsval \<Rightarrow> props option" where
  "setNestedValue obj keyPath v = setNestedKeys obj (splitDot keyPath) v"

section \<open>ConfigurationManager: state and operations\<close>

text \<open>
  The three fields of the class. \<open>_mergedConfig\<close> is only ever assigned \<open>null\<close>, \<open>{}\<close> or a
  result of \<open>_deepMerge\<close>, so it is \<open>None\<close> (for \<open>null\<close>) or an object. The fragments are
  held by value: that the merged object shares nested objects with the fragments it was
  merged from is not tracked. Only \<open>set\<close> writes into the merged object, and the only
  statement below about a fragment after a \<open>set\<close> is on a manager that was new, where the
  fragments are \<open>null\<close> and nothing is shared.
\<close>

record manager =
  globalConfig :: jsval
  projectConfig :: jsval
  mergedConfig :: "props option"

definition new_manager :: manager where
  "new_manager = \<lparr>globalConfig = JNull, projectConfig = JNull, mergedConfig = None\<rparr>"

text \<open>
  The file system. A configuration file is absent (\<open>fs.pathExists\<close> false), or reading it
  throws (unreadable, or not JSON) with a message, or \<open>fs.readJson\<close> returns its value.
  \<open>writeFails\<close> is the message of the error \<open>fs.ensureDir\<close> or \<open>fs.writeJson\<close> throws, if
  they do.
\<close>

datatype config_file = NoFile | ReadFails string | FileJson jsval

record config_io =
  globalFile :: config_file
  projectFile :: config_file
  globalConfigPath :: string
  projectConfigPath :: string
  writeFails :: "string option"

text \<open>
  What a file holds after \<open>fs.writeJson(path, config)\<close>, as \<open>fs.readJson\<close> gives it back:
  \<open>JSON.stringify\<close> leaves out the properties whose value is \<open>undefined\<close> or a function
  and writes \<open>null\<close> for such an element of an array.
\<close>

fun unstorable :: "jsval \<Rightarrow> bool" where
  "unstorable JUndefined = True"
| "unstorable (JFunction n) = True"
| "unstorable v = False"

fun stored :: "jsval \<Rightarrow> jsval"
  and storedProps :: "props \<Rightarrow> props"
  and storedItems :: "jsval list \<Rightarrow> jsval list" where
  "stored (JObj m) = JObj (storedProps m)"
| "stored (JArr xs) = JArr (storedItems xs)"
| "stored JUndefined = JUndefined"
| "stored JNull = JNull"
| "stored (JBool b) = JBool b"
| "stored (JNum n) = JNum n"
| "stored (JStr s) = JStr s"
| "stored JObjectPrototype = JObj []"
| "stored JArrayPrototype = JArr []"
| "stored (JFunction n) = JFunction n"
| "storedProps [] = []"
| "storedProps ((k, v) # m) = (if unstorable v then storedProps m else (k, stored v) # storedProps m)"
| "storedItems [] = []"
| "storedItems (x # xs) = (if unstorable x then JNull else stored x) # storedItems xs"

text \<open>
  \<open>_loadGlobalConfig\<close> and \<open>_loadProjectConfig\<close>: the configuration and the lines given to
  \<open>console.warn\<close>.
\<close>

definition loadGlobalConfig :: "config_io \<Rightarrow> jsval \<times> string list" where
  "loadGlobalConfig io =
     (case globalFile io of
        NoFile \<Rightarrow> (JObj [], [])
      | ReadFails msg \<Rightarrow> (JObj [], [''Warning: Could not load global config: '' @ msg])
      | FileJson config \<Rightarrow> (orEmpty config, []))"

definition loadProjectConfig :: "config_io \<Rightarrow> jsval \<times> string list" where
  "loadProjectConfig io =
     (case projectFile io of
        NoFile \<Rightarrow> (JObj [], [])
      | ReadFails msg \<Rightarrow> (JObj [], [''Warning: Could not load project config: '' @ msg])
      | FileJson config \<Rightarrow> (orEmpty config, []))"

text \<open>
  \<open>loadConfiguration(cliOptions = {})\<close>, with the outcome of the call of
  \<open>_mergeConfigurations\<close> as a parameter \<open>mergeStep\<close> (the method can be replaced on an
  instance, and the \<open>catch\<close> wraps whatever it throws). The result is what is returned or
  thrown, the manager afterwards (the two fragments are assigned before the merge) and the
  warnings.
\<close>

definition loadConfigurationWith ::
  "(jsval \<Rightarrow> jsval \<Rightarrow> jsval \<Rightarrow> error + props) \<Rightarrow> config_io \<Rightarrow> manager \<Rightarrow> jsval
     \<Rightarrow> (error + props) \<times> manager \<times> string list" where
  "loadConfigurationWith mergeStep io m cliOptions =
     (let cliOptions = (if cliOptions = JUndefined then JObj [] else cliOptions);
          g = loadGlobalConfig io;
          p = loadProjectConfig io;
          m1 = m\<lparr>globalConfig := fst g, projectConfig := fst p\<rparr>
      in case mergeStep (fst g) (fst p) cliOptions of
           Inl e \<Rightarrow>
             (Inl (newFileSystemError (''Failed to load configuration: '' @ error_message e) None None),
              m1, snd g @ snd p)
         | Inr merged \<Rightarrow> (Inr merged, m1\<lparr>mergedConfig := Some merged\<rparr>, snd g @ snd p))"

text \<open>
  \<open>loadConfiguration\<close> as the class has it, with \<open>_mergeConfigurations\<close> as the merge step;
  \<open>None\<close> when the merge leaves the model.
\<close>

definition loadConfiguration ::
  "config_io \<Rightarrow> manager \<Rightarrow> jsval \<Rightarrow> ((error + props) \<times> manager \<times> string list) option" where
  "loadConfiguration io m cliOptions =
     (case mergeConfigurations (fst (loadGlobalConfig io)) (fst (loadProjectConfig io))
             (if cliOptions = JUndefined then JObj [] else cliOptions) of
        None \<Rightarrow> None
      | Some outcome \<Rightarrow> Some (loadConfigurationWith (\<lambda>g p c. outcome) io m cliOptions))"

definition notLoaded :: error where
  "notLoaded = ValidationError ''Configuration not loaded. Call loadConfiguration() first.''"

text \<open>\<open>get(key, defaultValue = undefined)\<close>.\<close>

definition get :: "manager \<Rightarrow> string \<Rightarrow> jsval \<Rightarrow> error + jsval" where
  "get m key defaultValue =
     (case mergedConfig m of
        None \<Rightarrow> Inl notLoaded
      | Some merged \<Rightarrow> Inr (getNestedValue (JObj merged) key defaultValue))"

text \<open>
  \<open>set(key, value)\<close>: the changed manager, or \<open>None\<close> where \<open>_setNestedValue\<close> leaves the
  model.
\<close>

definition set_value :: "manager \<Rightarrow> string \<Rightarrow> jsval \<Rightarrow> manager option" where
  "set_value m key v =
     (let merged = (case mergedConfig m of None \<Rightarrow> [] | Some c \<Rightarrow> c)
      in case setNestedValue merged key v of
           None \<Rightarrow> None
         | Some merged' \<Rightarrow> Some (m\<lparr>mergedConfig := Some merged'\<rparr>))"

definition getAll :: "manager \<Rightarrow> error + props" where
  "getAll m = (case mergedConfig m of None \<Rightarrow> Inl notLoaded | Some merged \<Rightarrow> Inr merged)"

definition isLoaded :: "manager \<Rightarrow> bool" where
  "isLoaded m = (mergedConfig m \<noteq> None)"

definition reset :: "manager \<Rightarrow> manager" where
  "reset m = m\<lparr>globalConfig := JNull, projectConfig := JNull, mergedConfig := None\<rparr>"

text \<open>\<open>missing.join(', ')\<close>.\<close>

fun joinWith :: "string \<Rightarrow> string list \<Rightarrow> string" where
  "joinWith sep [] = []"
| "joinWith sep [x] = x"
| "joinWith sep (x # y # ys) = x @ sep @ joinWith sep (y # ys)"

text \<open>
  \<open>validateRequiredConfig(requiredKeys)\<close>: a query; it assigns no field, so its only
  outcome is to return or to throw.
\<close>

definition missingKeys :: "manager \<Rightarrow> string list \<Rightarrow> string list" where
  "missingKeys m requiredKeys = filter (\<lambda>key. get m key JUndefined = Inr JUndefined) requiredKeys"

definition validateRequiredConfig :: "manager \<Rightarrow> string list \<Rightarrow> error + unit" where
  "validateRequiredConfig m requiredKeys =
     (case mergedConfig m of
        None \<Rightarrow> Inl notLoaded
      | Some merged \<Rightarrow>
          (let missing = missingKeys m requiredKeys
           in if length missing > 0
              then Inl (ValidationError (''Missing required configuration: '' @ joinWith '', '' missing))
              else Inr ()))"

text \<open>
  \<open>saveProjectConfig(config)\<close> and \<open>saveGlobalConfig(config)\<close>: what is thrown, or the
  manager and the files after the call. Everything is inside the \<open>try\<close>: a failing write
  and a throwing re-merge both end as a \<open>FileSystemError\<close>. \<open>writeJson\<close> of \<open>undefined\<close>
  or of a function throws a \<open>TypeError\<close> (\<open>JSON.stringify\<close> gives \<open>undefined\<close>). The re-merge has no CLI options. After a throw neither the
  manager nor the files are given (the write may have happened).
\<close>

definition writeError :: "config_io \<Rightarrow> jsval \<Rightarrow> error option" where
  "writeError io config =
     (case writeFails io of
        Some msg \<Rightarrow> Some (Error msg)
      | None \<Rightarrow>
          if unstorable config
          then Some (TypeError (''Cannot read properties of undefined (reading ''
                        @ [CHR 0x27] @ ''replace'' @ [CHR 0x27] @ '')''))
          else None)"

definition saveProjectConfig ::
  "config_io \<Rightarrow> manager \<Rightarrow> jsval \<Rightarrow> (error + manager \<times> config_io) option" where
  "saveProjectConfig io m config =
     (case writeError io config of
        Some e \<Rightarrow>
          Some (Inl (newFileSystemError ''save project config'' (Some (projectConfigPath io)) (Some e)))
      | None \<Rightarrow>
          (let io' = io\<lparr>projectFile := FileJson (stored config)\<rparr>
           in case mergedConfig m of
                None \<Rightarrow> Some (Inr (m, io'))
              | Some merged \<Rightarrow>
                  (case mergeConfigurations (globalConfig m) config (JObj []) of
                     None \<Rightarrow> None
                   | Some (Inl e) \<Rightarrow>
                       Some (Inl (newFileSystemError ''save project config''
                                    (Some (projectConfigPath io)) (Some e)))
                   | Some (Inr merged') \<Rightarrow>
                       Some (Inr (m\<lparr>projectConfig := config, mergedConfig := Some merged'\<rparr>, io')))))"

definition saveGlobalConfig ::
  "config_io \<Rightarrow> manager \<Rightarrow> jsval \<Rightarrow> (error + manager \<times> config_io) option" where
  "saveGlobalConfig io m config =
     (case writeError io config of
        Some e \<Rightarrow>
          Some (Inl (newFileSystemError ''save global config'' (Some (globalConfigPath io)) (Some e)))
      | None \<Rightarrow>
          (let io' = io\<lparr>globalFile := FileJson (stored config)\<rparr>
           in case mergedConfig m of
                None \<Rightarrow> Some (Inr (m, io'))
              | Some merged \<Rightarrow>
                  (case mergeConfigurations config (projectConfig m) (JObj []) of
                     None \<Rightarrow> None
                   | Some (Inl e) \<Rightarrow>
                       Some (Inl (newFileSystemError ''save global config''
                                    (Some (globalConfigPath io)) (Some e)))
                   | Some (Inr merged') \<Rightarrow>
                       Some (Inr (m\<lparr>globalConfig := config, mergedConfig := Some merged'\<rparr>, io')))))"

text \<open>
  The node \<open>parent[key]\<close> that \<open>setUtilityConfig\<close> makes sure exists: a falsy value is
  replaced by a new \<open>{}\<close>, an own object is kept. The result is \<open>None\<close> for any other value
  (a number, \<open>true\<close>, a string, an array, an inherited value): the property reads, writes
  and deletions that follow go to a primitive (where a write throws a \<open>TypeError\<close>, the
  class body being strict code), to an array or to a built-in value, all outside the
  model. No statement below is about such a project fragment.
\<close>

definition ensureNode :: "props \<Rightarrow> string \<Rightarrow> props option" where
  "ensureNode parent key =
     (let node = readProp (JObj parent) key
      in if falsy node then Some [] else (case node of JObj sub \<Rightarrow> Some sub | _ \<Rightarrow> None))"

text \<open>
  The edit of \<open>setUtilityConfig\<close> on \<open>currentConfig\<close>, the copy of the project fragment:
  with \<open>value === undefined\<close> the key is deleted, then the utility's node if it has no key
  left, then \<open>utilities\<close> if it has none left; otherwise the key is assigned.
\<close>

definition editUtilities :: "props \<Rightarrow> string \<Rightarrow> string \<Rightarrow> jsval \<Rightarrow> props option" where
  "editUtilities currentConfig utilityName key v =
     (case ensureNode currentConfig ''utilities'' of
        None \<Rightarrow> None
      | Some utilities \<Rightarrow>
          (case ensureNode utilities utilityName of
             None \<Rightarrow> None
           | Some utility \<Rightarrow>
               (if v = JUndefined then
                  (let utility' = deleteProp key utility;
                       utilities' =
                         (if length utility' = 0 then deleteProp utilityName utilities
                          else setProp utilityName (JObj utility') utilities)
                   in Some (if length utilities' = 0 then deleteProp ''utilities'' currentConfig
                            else setProp ''utilities'' (JObj utilities') currentConfig))
                else
                  (case assignProp key v utility of
                     None \<Rightarrow> None
                   | Some utility' \<Rightarrow>
                       Some (setProp ''utilities''
                               (JObj (setProp utilityName (JObj utility') utilities))
                               currentConfig)))))"

text \<open>
  \<open>setUtilityConfig(utilityName, key, value)\<close>: the load happens only when
  \<open>_mergedConfig\<close> is \<open>null\<close>; every throw inside is wrapped once more.
\<close>

definition wrapUtilityError :: "error \<Rightarrow> error" where
  "wrapUtilityError e = newFileSystemError ''set utility config'' (Some ''project config file'') (Some e)"

definition setUtilityConfig ::
  "config_io \<Rightarrow> manager \<Rightarrow> string \<Rightarrow> string \<Rightarrow> jsval \<Rightarrow> (error + manager \<times> config_io) option" where
  "setUtilityConfig io m utilityName key v =
     (case (if mergedConfig m = None
            then (case loadConfiguration io m (JObj []) of
                    None \<Rightarrow> None
                  | Some (Inl e, m1, warnings) \<Rightarrow> Some (Inl e)
                  | Some (Inr merged, m1, warnings) \<Rightarrow> Some (Inr m1))
            else Some (Inr m)) of
        None \<Rightarrow> None
      | Some (Inl e) \<Rightarrow> Some (Inl (wrapUtilityError e))
      | Some (Inr m1) \<Rightarrow>
          (case editUtilities (ownEnumerable (projectConfig m1)) utilityName key v of
             None \<Rightarrow> None
           | Some currentConfig \<Rightarrow>
               (case saveProjectConfig io m1 (JObj currentConfig) of
                  None \<Rightarrow> None
                | Some (Inl e) \<Rightarrow> Some (Inl (wrapUtilityError e))
                | Some (Inr result) \<Rightarrow> Some (Inr result))))"

section \<open>CacheManager\<close>

text \<open>
  \<open>fs.readFile(filePath, 'utf8')\<close> gives the file's bytes decoded as UTF-8. The decoder is
  the one of the WHATWG Encoding Standard, which Node follows: a byte that cannot start or
  continue a well-formed sequence ends the sequence so far, and each such ill-formed part
  is replaced by U+FFFD. The text is the list of its code points. The state of the decoder
  is \<open>None\<close> between characters, and inside one the code point so far, the number of bytes
  still needed and the bounds of the next byte.
\<close>

type_synonym byte = "8 word"

definition utf8Lead :: "nat \<Rightarrow> (nat \<times> nat \<times> nat \<times> nat) option" where
  "utf8Lead b =
     (if 0xC2 \<le> b \<and> b \<le> 0xDF then Some (b - 0xC0, 1, 0x80, 0xBF)
      else if 0xE0 \<le> b \<and> b \<le> 0xEF
        then Some (b - 0xE0, 2, if b = 0xE0 then 0xA0 else 0x80, if b = 0xED then 0x9F else 0xBF)
      else if 0xF0 \<le> b \<and> b \<le> 0xF4
        then Some (b - 0xF0, 3, if b = 0xF0 then 0x90 else 0x80, if b = 0xF4 then 0x8F else 0xBF)
      else None)"

function utf8Decode :: "(nat \<times> nat \<times> nat \<times> nat) option \<Rightarrow> byte list \<Rightarrow> nat list" where
  "utf8Decode None [] = []"
| "utf8Decode (Some st) [] = [0xFFFD]"
| "utf8Decode None (b # bs) =
     (if unat b \<le> 0x7F then unat b # utf8Decode None bs
      else case utf8Lead (unat b) of
             Some st \<Rightarrow> utf8Decode (Some st) bs
           | None \<Rightarrow> 0xFFFD # utf8Decode None bs)"
| "utf8Decode (Some (cp, needed, lower, upper)) (b # bs) =
     (if unat b < lower \<or> upper < unat b then 0xFFFD # utf8Decode None (b # bs)
      else if needed = 1 then (cp * 64 + unat b mod 64) # utf8Decode None bs
      else utf8Decode (Some (cp * 64 + unat b mod 64, needed - 1, 0x80, 0xBF)) bs)"
  by pat_completeness auto
termination
  by (relation "measure (\<lambda>(st, bs). 2 * length bs + (case st of None \<Rightarrow> 0 | Some x \<Rightarrow> 1))") auto

text \<open>
  The UTF-8 encoding of a text, for stating which files are well-formed UTF-8: a code
  point is a Unicode scalar value, below \<open>0x110000\<close> and not a surrogate.
\<close>

definition scalarValue :: "nat \<Rightarrow> bool" where
  "scalarValue cp = (cp < 0xD800 \<or> (0xE000 \<le> cp \<and> cp < 0x110000))"

definition utf8EncodeChar :: "nat \<Rightarrow> byte list" where
  "utf8EncodeChar cp =
     (if cp < 0x80 then [word_of_nat cp]
      else if cp < 0x800 then [word_of_nat (0xC0 + cp div 64), word_of_nat (0x80 + cp mod 64)]
      else if cp < 0x10000
        then [word_of_nat (0xE0 + cp div 4096), word_of_nat (0x80 + cp div 64 mod 64),
              word_of_nat (0x80 + cp mod 64)]
      else [word_of_nat (0xF0 + cp div 262144), word_of_nat (0x80 + cp div 4096 mod 64),
            word_of_nat (0x80 + cp div 64 mod 64), word_of_nat (0x80 + cp mod 64)])"

definition utf8Encode :: "nat list \<Rightarrow> byte list" where
  "utf8Encode content = concat (map utf8EncodeChar content)"

text \<open>What reading a source file gives: an error with its message, or the bytes.\<close>

datatype file_read = ReadError string | FileBytes "byte list"

text \<open>
  \<open>calculateFileHash(filePath)\<close>: \<open>None\<close> is the \<open>null\<close> returned when the read throws. The
  parameter \<open>sha256hex\<close> is \<open>crypto.createHash('sha256').update(content).digest('hex')\<close>
  as a function of the text \<open>content\<close>.
\<close>

definition calculateFileHash ::
  "(string \<Rightarrow> file_read) \<Rightarrow> (nat list \<Rightarrow> string) \<Rightarrow> string \<Rightarrow> string option" where
  "calculateFileHash readFile sha256hex filePath =
     (case readFile filePath of
        ReadError msg \<Rightarrow> None
      | FileBytes bytes \<Rightarrow> Some (sha256hex (utf8Decode None bytes)))"

text \<open>
  \<open>hasFileChanged(filePath, hashCache)\<close>. \<open>!currentHash\<close> holds of \<open>null\<close> and of the empty
  string. Reading a property of a \<open>hashCache\<close> that is \<open>null\<close> or \<open>undefined\<close> throws.
  An inherited property is a function or a prototype object, never a string, so that it
  compares as a missing entry does; the own properties are enough here.
\<close>

definition hasFileChanged ::
  "(string \<Rightarrow> file_read) \<Rightarrow> (nat list \<Rightarrow> string) \<Rightarrow> string \<Rightarrow> jsval \<Rightarrow> error + bool" where
  "hasFileChanged readFile sha256hex filePath hashCache =
     (case calculateFileHash readFile sha256hex filePath of
        None \<Rightarrow> Inr True
      | Some currentHash \<Rightarrow>
          if currentHash = [] then Inr True
          else if hashCache = JNull \<or> hashCache = JUndefined
            then Inl (TypeError (''Cannot read properties of ''
                   @ (if hashCache = JNull then ''null'' else ''undefined'')
                   @ '' (reading '' @ [CHR 0x27] @ filePath @ [CHR 0x27] @ '')''))
          else let cachedHash = getProp hashCache filePath
               in Inr (falsy cachedHash \<or> cachedHash \<noteq> JStr currentHash))"






section \<open>Notions used in the statements\<close>

text \<open>
  The value a fragment holds at a list of keys, going through own properties of objects
  only: \<open>None\<close> when a key is missing or a value on the way is not an object.
\<close>

fun objPath :: "jsval \<Rightarrow> string list \<Rightarrow> jsval option" where
  "objPath v [] = Some v"
| "objPath (JObj m) (key # keys) = (case map_of m key of None \<Rightarrow> None | Some x \<Rightarrow> objPath x keys)"
| "objPath v (key # keys) = None"

text \<open>
  A fragment is silent on a path when it holds nothing at the path and nothing but
  objects above it: the first key it lacks is reached through objects only.
\<close>

fun silent :: "jsval \<Rightarrow> string list \<Rightarrow> bool" where
  "silent v [] = False"
| "silent (JObj m) (key # keys) = (case map_of m key of None \<Rightarrow> True | Some x \<Rightarrow> silent x keys)"
| "silent v (key # keys) = False"

text \<open>
  The merge of two objects when it returns (the empty object otherwise, never used where
  the merge does not return).
\<close>

definition mergeOf :: "jsval \<Rightarrow> jsval \<Rightarrow> props" where
  "mergeOf target source = (case deepMerge target source of Some (Inr r) \<Rightarrow> r | _ \<Rightarrow> [])"

text \<open>
  The value \<open>higher\<close> of a higher-priority fragment laid over what the lower-priority
  fragments give: the recursive merge when both are objects, \<open>higher\<close> otherwise.
\<close>

definition over :: "jsval option \<Rightarrow> jsval \<Rightarrow> jsval" where
  "over lower higher =
     (case lower of
        Some l \<Rightarrow> if isObject l \<and> isObject higher then JObj (mergeOf l higher) else higher
      | None \<Rightarrow> higher)"

text \<open>
  What a higher-priority fragment \<open>source\<close> makes of the value \<open>lower\<close> that the
  lower-priority fragments give at a path: its own value laid over \<open>lower\<close> when it holds
  one; \<open>lower\<close> when it is silent on the path; nothing when it holds a value that is not an
  object above the path.
\<close>

definition layer :: "jsval \<Rightarrow> string list \<Rightarrow> jsval option \<Rightarrow> jsval option" where
  "layer source keys lower =
     (case objPath source keys of
        Some v \<Rightarrow> Some (over lower v)
      | None \<Rightarrow> if silent source keys then lower else None)"

section \<open>Example data\<close>

text \<open>
  The fragments of the repository's test of the deployment settings, with one more global
  key: the tags are in the global and the project fragment, the category in the global
  fragment and the CLI options.
\<close>

definition deployGlobal :: props where
  "deployGlobal =
     [(''deploy'', JObj [(''defaultTags'', JArr [JStr ''global-tag'']),
                         (''defaultCategory'', JStr ''global-category'')]),
      (''option3'', JStr ''global-value3'')]"

definition deployProject :: props where
  "deployProject =
     [(''deploy'', JObj [(''defaultTags'', JArr [JStr ''project-tag'']),
                         (''defaultUtility'', JStr ''github-copilot'')])]"

definition deployCli :: props where
  "deployCli = [(''deploy'', JObj [(''defaultCategory'', JStr ''cli-category'')])]"

definition filesOf :: "props \<Rightarrow> props \<Rightarrow> config_io" where
  "filesOf g p =
     \<lparr>globalFile = FileJson (JObj g), projectFile = FileJson (JObj p),
      globalConfigPath = ''/home/user/.rex/config.json'',
      projectConfigPath = ''/project/.rex/config.json'',
      writeFails = None\<rparr>"

text \<open>The manager after \<open>loadConfiguration\<close> on a new instance.\<close>

definition loaded :: "props \<Rightarrow> props \<Rightarrow> props \<Rightarrow> manager" where
  "loaded g p c =
     (case loadConfiguration (filesOf g p) new_manager (JObj c) of
        Some (outcome, m, warnings) \<Rightarrow> m
      | None \<Rightarrow> new_manager)"

text \<open>A project fragment with the settings of two utilities.\<close>

definition utilitiesProject :: props where
  "utilitiesProject =
     [(''utilities'', JObj [(''X'', JObj [(''k'', JStr ''v'')]), (''Y'', JObj [(''k2'', JBool True)])])]"

text \<open>
  Source files and a fingerprint cache as in the repository's tests of the cache. The
  examples need some digest function: \<open>exampleDigest\<close> gives the text \<open>same content\<close> the
  SHA-256 digest the tests expect for it, and every other text one other digest.
\<close>

definition asciiBytes :: "string \<Rightarrow> byte list" where
  "asciiBytes s = map (\<lambda>c. word_of_nat (of_char c)) s"

definition exampleDigest :: "nat list \<Rightarrow> string" where
  "exampleDigest content =
     (if content = map of_char ''same content''
      then ''a636bd7cd42060a4d07fa1bfbcc010eb7794c2ba721e1e3e4c20335a15b66eaf''
      else ''6ae8a75555209fd6c44157c0aed8016e763ff435a19cf186f76863140143ff72'')"

definition exampleFiles :: "string \<Rightarrow> file_read" where
  "exampleFiles filePath =
     (if filePath = ''/test/unchanged.md'' \<or> filePath = ''/test/copy.md''
        then FileBytes (asciiBytes ''same content'')
      else if filePath = ''/test/changed.md'' then FileBytes (asciiBytes ''new content'')
      else ReadError ''File not found'')"

definition exampleHashCache :: props where
  "exampleHashCache =
     [(''/test/unchanged.md'', JStr ''a636bd7cd42060a4d07fa1bfbcc010eb7794c2ba721e1e3e4c20335a15b66eaf'')]"




section \<open>Properties of the operations\<close>

subsection \<open>Property lists and the merge loop\<close>

text \<open>
  The facts used to evaluate property reads and writes on concrete values, and the merge
  of a plain source into any object: it returns, and the result holds at a key of the
  source the source's value laid over the target's own value, and at any other key what
  the target holds.
\<close>

lemmas js_eval = readProp_def lookupIn_def isObject_def assignProp_def orEmpty_def
  fromObjectPrototype_def objectPrototypeNames_def andThen_def

lemma map_of_setProp: "map_of (setProp k v m) k' = (if k' = k then Some v else map_of m k')"
  by (induction m) auto

lemma isObject_JObj [simp]: "isObject (JObj m)"
  by (simp add: isObject_def)

lemma isObject_cases: "isObject v = ((\<exists>m. v = JObj m) \<or> v = JObjectPrototype)"
  by (cases v) (auto simp: isObject_def)

lemma deepMerge_objects:
  "isObject target \<Longrightarrow>
   deepMerge target (JObj sv) = mergeLoop target (JObj sv) (ownEnumerable target) sv"
  by (auto simp: deepMerge_def orEmpty_def isObject_cases)

lemma map_of_ownEnumerable: "isObject target \<Longrightarrow> map_of (ownEnumerable target) k = ownProp target k"
  by (auto simp: isObject_cases)

lemma readProp_own: "ownProp target k = Some x \<Longrightarrow> readProp target k = x"
  by (simp add: readProp_def lookupIn_def)

lemma readProp_not_own:
  "isObject target \<Longrightarrow> ownProp target k = None \<Longrightarrow> k \<noteq> ''__proto__'' \<Longrightarrow>
   \<not> isObject (readProp target k)"
  by (auto simp: readProp_def lookupIn_def fromObjectPrototype_def isObject_cases split: if_splits)

lemma assignProp_other: "key \<noteq> ''__proto__'' \<Longrightarrow> assignProp key v obj = Some (setProp key v obj)"
  by (simp add: assignProp_def)

lemma plain_isObject: "plain v \<Longrightarrow> isObject v = (\<exists>m. v = JObj m)"
  by (cases v) (auto simp: isObject_def)

lemma mergeLoop_plain:
  "isObject target \<Longrightarrow> distinct (map fst es) \<Longrightarrow> ''__proto__'' \<notin> set (map fst es) \<Longrightarrow>
   list_all (\<lambda>kv. plain (snd kv)) es \<Longrightarrow> ownProp source ''hasOwnProperty'' = None \<Longrightarrow>
   \<exists>r'. mergeLoop target source r es = Some (Inr r')
        \<and> (\<forall>k. map_of r' k = (case map_of es k of None \<Rightarrow> map_of r k
                                | Some v \<Rightarrow> Some (over (ownProp target k) v)))"
proof (induction es arbitrary: target source r rule: measure_induct_rule[where f = "\<lambda>es. size (JObj es)"])
  case (less es)
  show ?case
  proof (cases es)
    case Nil
    then show ?thesis by simp
  next
    case (Cons kv rest)
    obtain key v where kv: "kv = (key, v)" by (cases kv)
    from less.prems Cons kv
    have d: "distinct (map fst rest)" and nk: "key \<notin> fst ` set rest"
      and np: "''__proto__'' \<notin> set (map fst rest)" and kp: "key \<noteq> ''__proto__''"
      and pr: "list_all (\<lambda>kv. plain (snd kv)) rest" and pv: "plain v"
      by auto
    note tgt = less.prems(1)
    note hop = less.prems(5)
    have none: "map_of rest key = None" using nk by (simp add: map_of_eq_None_iff)
    have smaller: "size (JObj rest) < size (JObj es)"
      using Cons by simp
    have step: "\<forall>r0. mergeLoop target source r0 es
                  = mergeLoop target source (setProp key (over (ownProp target key) v) r0) rest"
    proof (cases "isObject v \<and> isObject (readProp target key)")
      case True
      then obtain sv where sv: "v = JObj sv" using pv plain_isObject by blast
      from True have io: "isObject (readProp target key)" by simp
      have own: "ownProp target key = Some (readProp target key)"
      proof (cases "ownProp target key")
        case None
        then show ?thesis using readProp_not_own[OF tgt None kp] io by simp
      next
        case (Some x)
        then show ?thesis by (simp add: readProp_own)
      qed
      have inner_small: "size (JObj sv) < size (JObj es)"
        using Cons kv sv by simp
      have psv: "distinct (map fst sv)" "''__proto__'' \<notin> set (map fst sv)"
        "list_all (\<lambda>kv. plain (snd kv)) sv" "ownProp (JObj sv) ''hasOwnProperty'' = None"
        using pv sv by (auto simp: map_of_eq_None_iff)
      from less.IH[OF inner_small io psv(1,2,3,4), of "ownEnumerable (readProp target key)"]
      obtain inner where inner:
        "mergeLoop (readProp target key) (JObj sv) (ownEnumerable (readProp target key)) sv = Some (Inr inner)"
        by blast
      have m: "mergeOf (readProp target key) (JObj sv) = inner"
        using inner io by (simp add: mergeOf_def deepMerge_objects)
      have o: "over (ownProp target key) v = JObj inner"
        using own io sv m by (simp add: over_def)
      show ?thesis
        using Cons kv sv io inner hop kp o by (simp add: assignProp_other)
    next
      case False
      have o: "over (ownProp target key) v = v"
      proof (cases "ownProp target key")
        case None
        then show ?thesis by (simp add: over_def)
      next
        case (Some x)
        then have "readProp target key = x" by (rule readProp_own)
        with False Some show ?thesis by (auto simp: over_def)
      qed
      show ?thesis
      proof (cases v)
        case (JObj sv)
        with False have "\<not> isObject (readProp target key)" by simp
        then show ?thesis using Cons kv JObj hop kp o by (simp add: assignProp_other)
      qed (use Cons kv hop kp o pv in \<open>simp_all add: assignProp_other\<close>)
    qed
    from less.IH[OF smaller tgt d np pr hop, of "setProp key (over (ownProp target key) v) r"]
    obtain r' where r': "mergeLoop target source (setProp key (over (ownProp target key) v) r) rest = Some (Inr r')"
      and look: "\<And>k. map_of r' k = (case map_of rest k of
                          None \<Rightarrow> map_of (setProp key (over (ownProp target key) v) r) k
                        | Some v \<Rightarrow> Some (over (ownProp target k) v))"
      by blast
    have "mergeLoop target source r es = Some (Inr r')" using step r' by simp
    moreover have "map_of r' k = (case map_of es k of None \<Rightarrow> map_of r k
                                  | Some v \<Rightarrow> Some (over (ownProp target k) v))" for k
      using look[of k] Cons kv none by (auto simp: map_of_setProp split: option.splits)
    ultimately show ?thesis by blast
  qed
qed

lemma deepMerge_plain:
  assumes "isObject target" and "plain (JObj s)"
  shows "deepMerge target (JObj s) = Some (Inr (mergeOf target (JObj s)))"
    and "map_of (mergeOf target (JObj s)) k
           = (case map_of s k of None \<Rightarrow> ownProp target k | Some v \<Rightarrow> Some (over (ownProp target k) v))"
proof -
  have a: "distinct (map fst s)" "''__proto__'' \<notin> set (map fst s)" "list_all (\<lambda>kv. plain (snd kv)) s"
    "ownProp (JObj s) ''hasOwnProperty'' = None"
    using assms(2) by (auto simp: map_of_eq_None_iff)
  from mergeLoop_plain[OF assms(1) a, of "ownEnumerable target"]
  obtain r' where r: "mergeLoop target (JObj s) (ownEnumerable target) s = Some (Inr r')"
    and look: "\<And>k. map_of r' k = (case map_of s k of None \<Rightarrow> map_of (ownEnumerable target) k
                                   | Some v \<Rightarrow> Some (over (ownProp target k) v))"
    by blast
  have m: "mergeOf target (JObj s) = r'"
    using r assms(1) by (simp add: mergeOf_def deepMerge_objects)
  show "deepMerge target (JObj s) = Some (Inr (mergeOf target (JObj s)))"
    using r m assms(1) by (simp add: deepMerge_objects)
  show "map_of (mergeOf target (JObj s)) k
           = (case map_of s k of None \<Rightarrow> ownProp target k | Some v \<Rightarrow> Some (over (ownProp target k) v))"
    using look[of k] m map_of_ownEnumerable[OF assms(1), of k] by (simp split: option.splits)
qed

lemma objPath_first:
  "isObject target \<Longrightarrow>
   objPath target (k # ks) = (case ownProp target k of None \<Rightarrow> None | Some x \<Rightarrow> objPath x ks)"
  by (auto simp: isObject_cases)

lemma objPath_not_object: "\<not> isObject v \<Longrightarrow> ks \<noteq> [] \<Longrightarrow> objPath v ks = None"
  by (cases v; cases ks) (auto simp: isObject_def)

lemma silent_not_object: "\<not> isObject v \<Longrightarrow> silent v ks = False"
  by (cases v; cases ks) (auto simp: isObject_def)

lemma objPath_prototype: "ks \<noteq> [] \<Longrightarrow> objPath JObjectPrototype ks = None"
  by (cases ks) auto

lemma plain_lookup: "plain (JObj m) \<Longrightarrow> map_of m k = Some x \<Longrightarrow> plain x"
  by (auto simp: list_all_iff dest!: map_of_SomeD)

lemma objPath_merged:
  "plain (JObj s) \<Longrightarrow> isObject target \<Longrightarrow> keys \<noteq> [] \<Longrightarrow>
   objPath (JObj (mergeOf target (JObj s))) keys = layer (JObj s) keys (objPath target keys)"
proof (induction keys arbitrary: s target)
  case Nil
  then show ?case by simp
next
  case (Cons k rest)
  note look = deepMerge_plain(2)[OF Cons.prems(2,1), of k]
  note first = objPath_first[OF Cons.prems(2), of k rest]
  show ?case
  proof (cases "map_of s k")
    case None
    then show ?thesis using look first by (simp add: layer_def)
  next
    case (Some v)
    have pv: "plain v" using plain_lookup[OF Cons.prems(1) Some] .
    have x: "map_of (mergeOf target (JObj s)) k = Some (over (ownProp target k) v)"
      using look Some by simp
    show ?thesis
    proof (cases "rest = []")
      case True
      then show ?thesis using x Some first by (simp add: layer_def split: option.splits)
    next
      case False
      show ?thesis
      proof (cases "isObject v \<and> (\<exists>l. ownProp target k = Some l \<and> isObject l)")
        case True
        then obtain sx l where sx: "v = JObj sx" and l: "ownProp target k = Some l" and il: "isObject l"
          using pv plain_isObject by blast
        have o: "over (ownProp target k) v = JObj (mergeOf l (JObj sx))"
          using sx l il by (simp add: over_def)
        have "objPath (JObj (mergeOf l (JObj sx))) rest = layer (JObj sx) rest (objPath l rest)"
          using Cons.IH[OF _ il False, of sx] pv sx by simp
        then show ?thesis using x o Some sx l first by (simp add: layer_def)
      next
        case False2: False
        have o: "over (ownProp target k) v = v"
          using False2 by (auto simp: over_def split: option.splits)
        show ?thesis
        proof (cases "isObject v")
          case True
          with False2 have "objPath target (k # rest) = None"
            using first \<open>rest \<noteq> []\<close> objPath_not_object by (auto split: option.splits)
          then show ?thesis using x o Some
            by (auto simp: layer_def over_def split: option.splits)
        next
          case False3: False
          have "objPath v rest = None" using False3 \<open>rest \<noteq> []\<close> by (rule objPath_not_object)
          moreover have "silent v rest = False" using False3 by (rule silent_not_object)
          ultimately show ?thesis using x o Some by (simp add: layer_def)
        qed
      qed
    qed
  qed
qed

lemma lookupIn_own: "map_of m k = Some x \<Longrightarrow> lookupIn (JObj m) k = Some x"
  by (simp add: lookupIn_def)

lemma objPath_getNestedKeys: "objPath (JObj m) keys = Some v \<Longrightarrow> getNestedKeys (JObj m) keys d = v"
proof (induction keys arbitrary: m)
  case Nil
  then show ?case by simp
next
  case (Cons k keys)
  from Cons.prems obtain x where x: "map_of m k = Some x" and px: "objPath x keys = Some v"
    by (auto split: option.splits)
  have r: "readProp (JObj m) k = x" using x by (simp add: readProp_def lookupIn_def)
  show ?case
  proof (cases keys)
    case Nil
    then show ?thesis using x px r by (simp add: lookupIn_own)
  next
    case (Cons k' keys')
    with px obtain mx where "x = JObj mx" by (cases x) auto
    then show ?thesis using Cons.IH[of mx] x px r by (simp add: lookupIn_own)
  qed
qed

lemma setProp_new: "k \<notin> set (map fst m) \<Longrightarrow> setProp k v m = m @ [(k, v)]"
  by (induction m) auto

lemma sanitizeLoop_plain:
  "distinct (map fst es) \<Longrightarrow> ''__proto__'' \<notin> set (map fst es) \<Longrightarrow>
   set (map fst acc) \<inter> set (map fst es) = {} \<Longrightarrow> ownProp cli ''hasOwnProperty'' = None \<Longrightarrow>
   sanitizeLoop cli acc es = Some (Inr (acc @ filter (\<lambda>kv. snd kv \<noteq> JUndefined) es))"
proof (induction es arbitrary: acc)
  case Nil
  then show ?case by simp
next
  case (Cons kv es)
  obtain k v where kv: "kv = (k, v)" by (cases kv)
  from Cons.prems kv have kp: "k \<noteq> ''__proto__''" and kn: "k \<notin> set (map fst acc)"
    and d: "distinct (map fst es)" and np: "''__proto__'' \<notin> set (map fst es)"
    and kes: "k \<notin> set (map fst es)" and disj: "set (map fst acc) \<inter> set (map fst es) = {}"
    by auto
  show ?case
  proof (cases "v = JUndefined")
    case True
    then show ?thesis using Cons.IH[OF d np disj Cons.prems(4)] kv Cons.prems(4) by simp
  next
    case False
    have "set (map fst (acc @ [(k, v)])) \<inter> set (map fst es) = {}" using disj kes by auto
    from Cons.IH[OF d np this Cons.prems(4)]
    show ?thesis using kv False Cons.prems(4) kp kn by (simp add: assignProp_other setProp_new)
  qed
qed

lemma sanitize_plain:
  assumes "plain (JObj c)"
  shows "sanitizeCliOptions (JObj c) = Some (Inr (filter (\<lambda>kv. snd kv \<noteq> JUndefined) c))"
    and "plain (JObj (filter (\<lambda>kv. snd kv \<noteq> JUndefined) c))"
proof -
  have a: "distinct (map fst c)" "''__proto__'' \<notin> set (map fst c)" "ownProp (JObj c) ''hasOwnProperty'' = None"
    using assms by (auto simp: map_of_eq_None_iff)
  show "sanitizeCliOptions (JObj c) = Some (Inr (filter (\<lambda>kv. snd kv \<noteq> JUndefined) c))"
    using sanitizeLoop_plain[OF a(1,2) _ a(3), of "[]"] by (simp add: sanitizeCliOptions_def)
  show "plain (JObj (filter (\<lambda>kv. snd kv \<noteq> JUndefined) c))"
    using assms by (auto simp: distinct_map_filter list_all_iff)
qed

lemma splitDot_nonempty: "splitDot s \<noteq> []"
  by (induction s) (auto split: list.splits)

subsection \<open>Loading\<close>

lemma mergeConfigurations_plain:
  assumes "plain (JObj p)" and "plain (JObj c)"
  shows "mergeConfigurations (JObj g) (JObj p) (JObj c)
           = Some (Inr (mergeOf (JObj (mergeOf (JObj g) (JObj p)))
                          (JObj (filter (\<lambda>kv. snd kv \<noteq> JUndefined) c))))"
  using deepMerge_plain(1)[OF _ assms(1), of "JObj g"]
    deepMerge_plain(1)[OF _ sanitize_plain(2)[OF assms(2)], of "JObj (mergeOf (JObj g) (JObj p))"]
    sanitize_plain(1)[OF assms(2)]
  by (simp add: mergeConfigurations_def andThen_def)

lemma loadConfiguration_returns:
  assumes "mergeConfigurations (fst (loadGlobalConfig io)) (fst (loadProjectConfig io)) (JObj c) = Some (Inr result)"
  shows "loadConfiguration io m (JObj c)
           = Some (Inr result,
                   m\<lparr>globalConfig := fst (loadGlobalConfig io), projectConfig := fst (loadProjectConfig io),
                     mergedConfig := Some result\<rparr>,
                   snd (loadGlobalConfig io) @ snd (loadProjectConfig io))"
  using assms by (simp add: loadConfiguration_def loadConfigurationWith_def Let_def)

lemma fst_loadGlobal_filesOf: "fst (loadGlobalConfig (filesOf g p)) = JObj g"
  by (simp add: loadGlobalConfig_def filesOf_def orEmpty_def)

lemma fst_loadProject_filesOf: "fst (loadProjectConfig (filesOf g p)) = JObj p"
  by (simp add: loadProjectConfig_def filesOf_def orEmpty_def)

lemma loaded_eval:
  "mergeConfigurations (JObj g) (JObj p) (JObj c) = Some (Inr result) \<Longrightarrow>
   get (loaded g p c) key d = Inr (getNestedKeys (JObj result) (splitDot key) d)"
  by (simp add: loaded_def loadConfiguration_def loadConfigurationWith_def Let_def filesOf_def
      loadGlobalConfig_def loadProjectConfig_def orEmpty_def get_def getNestedValue_def new_manager_def)

lemma loaded_merged:
  "mergeConfigurations (JObj g) (JObj p) (JObj c) = Some (Inr result) \<Longrightarrow>
   mergedConfig (loaded g p c) = Some result"
  by (simp add: loaded_def loadConfiguration_def loadConfigurationWith_def Let_def filesOf_def
      loadGlobalConfig_def loadProjectConfig_def orEmpty_def new_manager_def)

subsection \<open>Joined strings\<close>

lemma sublist_prepend: "sublist x ys \<Longrightarrow> sublist x (zs @ ys)"
proof -
  assume "sublist x ys"
  then obtain ps ss where "ys = ps @ x @ ss" by (auto simp: sublist_def)
  then have "zs @ ys = (zs @ ps) @ x @ ss" by simp
  then show ?thesis unfolding sublist_def by blast
qed

lemma sublist_joinWith: "x \<in> set xs \<Longrightarrow> sublist x (joinWith sep xs)"
proof (induction sep xs rule: joinWith.induct)
  case (1 sep)
  then show ?case by simp
next
  case (2 sep y)
  then show ?case by simp
next
  case (3 sep y z zs)
  show ?case
  proof (cases "x = y")
    case True
    then show ?thesis by (simp add: sublist_append_rightI)
  next
    case False
    with 3 have "sublist x (joinWith sep (z # zs))" by simp
    then have "sublist x ((y @ sep) @ joinWith sep (z # zs))" by (rule sublist_prepend)
    then show ?thesis by simp
  qed
qed

subsection \<open>The cache\<close>








lemma decode_same_content:
  "utf8Decode None (asciiBytes ''same content'') = map of_char ''same content''"
  by code_simp

subsection \<open>Decoding well-formed UTF-8\<close>

text \<open>
  The decoder undoes the encoder: the bytes that encode a text of Unicode scalar values
  decode to that text, so that two such texts with different bytes are different texts.
\<close>

lemma unat_byte: "n < 256 \<Longrightarrow> unat (word_of_nat n :: byte) = n"
  by (simp add: unat_of_nat take_bit_nat_eq_self)

lemma cont_mod: "b < 64 \<Longrightarrow> (128 + b) mod 64 = (b :: nat)"
proof -
  assume b: "b < 64"
  have "(128 + b) mod 64 = (b + 64 * 2) mod 64" by (simp add: add.commute)
  also have "\<dots> = b mod 64" by (rule mod_mult_self2)
  finally show ?thesis using b by simp
qed

lemma div64_less: "cp < k * 64 \<Longrightarrow> cp div 64 < (k::nat)"
  by (simp add: less_mult_imp_div_less)

lemma div64_ge: "k * 64 \<le> cp \<Longrightarrow> k \<le> cp div (64::nat)"
  by (simp add: less_eq_div_iff_mult_less_eq)

lemma div4096: "cp div 4096 = cp div 64 div (64::nat)"
proof -
  have "cp div 4096 = cp div (64 * 64)" by simp
  also have "\<dots> = cp div 64 div 64" by (rule div_mult2_eq)
  finally show ?thesis .
qed

lemma div262144: "cp div 262144 = cp div 64 div 64 div (64::nat)"
proof -
  have "cp div 262144 = cp div (4096 * 64)" by simp
  also have "\<dots> = cp div 4096 div 64" by (rule div_mult2_eq)
  finally show ?thesis by (simp add: div4096)
qed

lemma decode_char1:
  assumes "cp < 0x80"
  shows "utf8Decode None (utf8EncodeChar cp @ bs) = cp # utf8Decode None bs"
  using assms by (simp add: utf8EncodeChar_def unat_byte)

lemma decode_char2:
  assumes "0x80 \<le> cp" and "cp < 0x800"
  shows "utf8Decode None (utf8EncodeChar cp @ bs) = cp # utf8Decode None bs"
proof -
  define a where "a = cp div 64"
  define b where "b = cp mod 64"
  define w1 :: byte where "w1 = word_of_nat (0xC0 + a)"
  define w2 :: byte where "w2 = word_of_nat (0x80 + b)"
  have cp: "cp = a * 64 + b" by (simp add: a_def b_def)
  have a: "2 \<le> a" "a < 32"
    unfolding a_def using assms by (auto intro: div64_less div64_ge)
  have b: "b < 64" by (simp add: b_def)
  have e: "utf8EncodeChar cp = [w1, w2]"
    using assms unfolding utf8EncodeChar_def a_def b_def w1_def w2_def by simp
  have u1: "unat w1 = 0xC0 + a"
    unfolding w1_def using a by (intro unat_byte) simp
  have u2: "unat w2 = 0x80 + b"
    unfolding w2_def using b by (intro unat_byte) simp
  have l: "utf8Lead (0xC0 + a) = Some (a, 1, 0x80, 0xBF)"
    using a by (simp add: utf8Lead_def)
  show ?thesis
    unfolding e using a b by (simp add: u1 u2 l cp cont_mod)
qed

lemma decode_char3:
  assumes "0x800 \<le> cp" and "cp < 0x10000" and "cp < 0xD800 \<or> 0xE000 \<le> cp"
  shows "utf8Decode None (utf8EncodeChar cp @ bs) = cp # utf8Decode None bs"
proof -
  define x where "x = cp div 64"
  define a where "a = x div 64"
  define b where "b = x mod 64"
  define c where "c = cp mod 64"
  define w1 :: byte where "w1 = word_of_nat (0xE0 + a)"
  define w2 :: byte where "w2 = word_of_nat (0x80 + b)"
  define w3 :: byte where "w3 = word_of_nat (0x80 + c)"
  have cp: "cp = (a * 64 + b) * 64 + c" by (simp add: a_def b_def c_def x_def)
  have x: "x = a * 64 + b" by (simp add: a_def b_def)
  have x1: "32 \<le> x" unfolding x_def using assms(1) by (intro div64_ge) simp
  have x2: "x < 1024" unfolding x_def using assms(2) by (intro div64_less) simp
  have x3: "x < 864 \<or> 896 \<le> x"
  proof (rule disjE [OF assms(3)])
    assume "cp < 0xD800"
    then have "x < 864" unfolding x_def by (intro div64_less) simp
    then show ?thesis by simp
  next
    assume "0xE000 \<le> cp"
    then have "896 \<le> x" unfolding x_def by (intro div64_ge) simp
    then show ?thesis by simp
  qed
  have a: "a < 16" unfolding a_def using x2 by (intro div64_less) simp
  have b: "b < 64" by (simp add: b_def)
  have c: "c < 64" by (simp add: c_def)
  have lo: "a = 0 \<Longrightarrow> 32 \<le> b" using x x1 by simp
  have hi: "a = 13 \<Longrightarrow> b < 32" using x x3 b by linarith
  have e: "utf8EncodeChar cp = [w1, w2, w3]"
    using assms unfolding utf8EncodeChar_def a_def b_def c_def x_def w1_def w2_def w3_def
    by (simp add: div4096)
  have u1: "unat w1 = 0xE0 + a"
    unfolding w1_def using a by (intro unat_byte) simp
  have u2: "unat w2 = 0x80 + b"
    unfolding w2_def using b by (intro unat_byte) simp
  have u3: "unat w3 = 0x80 + c"
    unfolding w3_def using c by (intro unat_byte) simp
  have l: "utf8Lead (0xE0 + a) = Some (a, 2, if a = 0 then 0xA0 else 0x80, if a = 13 then 0x9F else 0xBF)"
    using a by (simp add: utf8Lead_def)
  have r: "\<not> (0x80 + b < (if a = 0 then 0xA0 else 0x80) \<or> (if a = 13 then 0x9F else 0xBF) < 0x80 + b)"
    using lo hi b by auto
  have s1: "utf8Decode None (w1 # w2 # w3 # bs)
              = utf8Decode (Some (a, 2, if a = 0 then 0xA0 else 0x80, if a = 13 then 0x9F else 0xBF))
                  (w2 # w3 # bs)"
    using a by (simp add: u1 l del: if_split)
  have s2: "utf8Decode (Some (a, 2, if a = 0 then 0xA0 else 0x80, if a = 13 then 0x9F else 0xBF))
                  (w2 # w3 # bs)
              = utf8Decode (Some (a * 64 + b, 1, 0x80, 0xBF)) (w3 # bs)"
    using r b by (simp add: u2 cont_mod del: if_split)
  have s3: "utf8Decode (Some (a * 64 + b, 1, 0x80, 0xBF)) (w3 # bs) = cp # utf8Decode None bs"
    using c by (simp add: u3 cont_mod cp)
  show ?thesis
    unfolding e using s1 s2 s3 by simp
qed

lemma decode_char4:
  assumes "0x10000 \<le> cp" and "cp < 0x110000"
  shows "utf8Decode None (utf8EncodeChar cp @ bs) = cp # utf8Decode None bs"
proof -
  define x where "x = cp div 64"
  define y where "y = x div 64"
  define a where "a = y div 64"
  define b where "b = y mod 64"
  define c where "c = x mod 64"
  define d where "d = cp mod 64"
  define w1 :: byte where "w1 = word_of_nat (0xF0 + a)"
  define w2 :: byte where "w2 = word_of_nat (0x80 + b)"
  define w3 :: byte where "w3 = word_of_nat (0x80 + c)"
  define w4 :: byte where "w4 = word_of_nat (0x80 + d)"
  have cp: "cp = ((a * 64 + b) * 64 + c) * 64 + d" by (simp add: a_def b_def c_def d_def x_def y_def)
  have y: "y = a * 64 + b" by (simp add: a_def b_def)
  have x1: "1024 \<le> x" unfolding x_def using assms(1) by (intro div64_ge) simp
  have x2: "x < 17408" unfolding x_def using assms(2) by (intro div64_less) simp
  have y1: "16 \<le> y" unfolding y_def using x1 by (intro div64_ge) simp
  have y2: "y < 272" unfolding y_def using x2 by (intro div64_less) simp
  have a: "a < 5" unfolding a_def using y2 by (intro div64_less) simp
  have b: "b < 64" by (simp add: b_def)
  have c: "c < 64" by (simp add: c_def)
  have d: "d < 64" by (simp add: d_def)
  have lo: "a = 0 \<Longrightarrow> 16 \<le> b" using y y1 by simp
  have hi: "a = 4 \<Longrightarrow> b < 16" using y y2 by simp
  have e: "utf8EncodeChar cp = [w1, w2, w3, w4]"
    using assms
    unfolding utf8EncodeChar_def a_def b_def c_def d_def x_def y_def w1_def w2_def w3_def w4_def
    by (simp add: div4096 div262144)
  have u1: "unat w1 = 0xF0 + a"
    unfolding w1_def using a by (intro unat_byte) simp
  have u2: "unat w2 = 0x80 + b"
    unfolding w2_def using b by (intro unat_byte) simp
  have u3: "unat w3 = 0x80 + c"
    unfolding w3_def using c by (intro unat_byte) simp
  have u4: "unat w4 = 0x80 + d"
    unfolding w4_def using d by (intro unat_byte) simp
  have l: "utf8Lead (0xF0 + a) = Some (a, 3, if a = 0 then 0x90 else 0x80, if a = 4 then 0x8F else 0xBF)"
    using a by (simp add: utf8Lead_def)
  have r: "\<not> (0x80 + b < (if a = 0 then 0x90 else 0x80) \<or> (if a = 4 then 0x8F else 0xBF) < 0x80 + b)"
    using lo hi b by auto
  have s1: "utf8Decode None (w1 # w2 # w3 # w4 # bs)
              = utf8Decode (Some (a, 3, if a = 0 then 0x90 else 0x80, if a = 4 then 0x8F else 0xBF))
                  (w2 # w3 # w4 # bs)"
    using a by (simp add: u1 l del: if_split)
  have s2: "utf8Decode (Some (a, 3, if a = 0 then 0x90 else 0x80, if a = 4 then 0x8F else 0xBF))
                  (w2 # w3 # w4 # bs)
              = utf8Decode (Some (a * 64 + b, 2, 0x80, 0xBF)) (w3 # w4 # bs)"
    using r b by (simp add: u2 cont_mod del: if_split)
  have s3: "utf8Decode (Some (a * 64 + b, 2, 0x80, 0xBF)) (w3 # w4 # bs)
              = utf8Decode (Some ((a * 64 + b) * 64 + c, 1, 0x80, 0xBF)) (w4 # bs)"
    using c by (simp add: u3 cont_mod)
  have s4: "utf8Decode (Some ((a * 64 + b) * 64 + c, 1, 0x80, 0xBF)) (w4 # bs) = cp # utf8Decode None bs"
    using d by (simp add: u4 cont_mod cp)
  show ?thesis
    unfolding e using s1 s2 s3 s4 by simp
qed

lemma decode_char:
  assumes "scalarValue cp"
  shows "utf8Decode None (utf8EncodeChar cp @ bs) = cp # utf8Decode None bs"
proof -
  consider "cp < 0x80" | "0x80 \<le> cp \<and> cp < 0x800" | "0x800 \<le> cp \<and> cp < 0x10000"
    | "0x10000 \<le> cp \<and> cp < 0x110000"
    using assms unfolding scalarValue_def by linarith
  then show ?thesis
  proof cases
    case 1
    then show ?thesis by (rule decode_char1)
  next
    case 2
    then show ?thesis by (intro decode_char2) simp_all
  next
    case 3
    moreover have "cp < 0xD800 \<or> 0xE000 \<le> cp" using assms unfolding scalarValue_def by linarith
    ultimately show ?thesis by (intro decode_char3) simp_all
  next
    case 4
    then show ?thesis by (intro decode_char4) simp_all
  qed
qed

lemma utf8_round_trip: "list_all scalarValue content \<Longrightarrow> utf8Decode None (utf8Encode content) = content"
proof (induction content)
  case Nil
  then show ?case by (simp add: utf8Encode_def)
next
  case (Cons cp content)
  then have "utf8Decode None (utf8EncodeChar cp @ utf8Encode content) = cp # content"
    by (simp add: decode_char)
  then show ?case by (simp add: utf8Encode_def)
qed

lemma encode_same_content: "asciiBytes ''same content'' = utf8Encode (map of_char ''same content'')"
  by code_simp

lemma encode_new_content: "asciiBytes ''new content'' = utf8Encode (map of_char ''new content'')"
  by code_simp

section \<open>Merge rule for one key\<close>

text \<open>
  Claim C2 says that for every key of the higher-priority fragment B the merged value is
  the recursive merge when both values are nested mappings and B's value otherwise. The
  code does not do this for every B. With B = \<open>{"hasOwnProperty": true}\<close>, which
  \<open>JSON.parse\<close> gives for that text, \<open>source.hasOwnProperty(key)\<close> calls \<open>true\<close> and
  \<open>_deepMerge\<close> throws a \<open>TypeError\<close>: there is no merge result. With B =
  \<open>{"__proto__": 5}\<close> the assignment \<open>result['__proto__'] = 5\<close> goes to the inherited setter
  and is dropped: the result has no such key and reads \<open>Object.prototype\<close> there, not B's
  value. The key \<open>hasOwnProperty\<close> does no harm one level down while only B has the
  nested mapping, and throws as soon as both fragments have it. (For every plain B the
  rule holds: lemma \<open>deepMerge_plain\<close> above.)
\<close>

theorem deepMerge_key_rule_fails:
  "deepMerge (JObj [(''a'', JNum 1)]) (JObj [(''hasOwnProperty'', JBool True)])
     = Some (Inl (TypeError ''source.hasOwnProperty is not a function''))
   \<and> deepMerge (JObj [(''a'', JNum 1)]) (JObj [(''__proto__'', JNum 5)]) = Some (Inr [(''a'', JNum 1)])
   \<and> readProp (JObj [(''a'', JNum 1)]) ''__proto__'' = JObjectPrototype
   \<and> deepMerge (JObj [(''a'', JNum 1)]) (JObj [(''b'', JObj [(''hasOwnProperty'', JNum 0)])])
     = Some (Inr [(''a'', JNum 1), (''b'', JObj [(''hasOwnProperty'', JNum 0)])])
   \<and> deepMerge (JObj [(''b'', JObj [])]) (JObj [(''b'', JObj [(''hasOwnProperty'', JNum 0)])])
     = Some (Inl (TypeError ''source.hasOwnProperty is not a function''))"
  by (simp add: deepMerge_def orEmpty_def readProp_def lookupIn_def assignProp_def isObject_def
      fromObjectPrototype_def objectPrototypeNames_def)

section \<open>Precedence of the fragments\<close>

text \<open>
  Claim C1, as amended. Let the global fragment be an object and the project fragment and
  the CLI options be plain objects. Then \<open>loadConfiguration\<close> returns, and for every dotted
  key path the merged configuration holds, through nested objects, exactly what the three
  fragments give when laid over each other in the order global, project, CLI options
  (without the top-level options whose value is \<open>undefined\<close>): a fragment that holds a value
  at the path, through nested objects only, lays it over what the fragments below give
  (the recursive merge of the two when both are objects, its own value otherwise); a
  fragment that is silent on the path (nothing at the path, and only objects above it)
  leaves what the fragments below give; and a fragment that holds something other than an
  object above the path leaves nothing at the path. Whenever the merged configuration
  holds a value at the path, \<open>get\<close> returns it. So a value of the CLI options that is not
  an object wins over the project fragment's, and the project fragment's over the global
  one's; two objects at the path are merged; and a scalar above the path in a
  higher-priority fragment hides the path in the lower ones.
\<close>

theorem load_get_precedence:
  assumes "fst (loadGlobalConfig io) = JObj g" and "fst (loadProjectConfig io) = JObj p"
    and "plain (JObj p)" and "plain (JObj c)"
  shows "\<exists>result m' warnings.
           loadConfiguration io m (JObj c) = Some (Inr result, m', warnings)
           \<and> mergedConfig m' = Some result
           \<and> objPath (JObj result) (splitDot key)
               = layer (JObj (filter (\<lambda>kv. snd kv \<noteq> JUndefined) c)) (splitDot key)
                   (layer (JObj p) (splitDot key) (objPath (JObj g) (splitDot key)))
           \<and> (\<forall>v. objPath (JObj result) (splitDot key) = Some v \<longrightarrow> get m' key d = Inr v)"
proof -
  define c' where "c' = filter (\<lambda>kv. snd kv \<noteq> JUndefined) c"
  define lower where "lower = mergeOf (JObj g) (JObj p)"
  define result where "result = mergeOf (JObj lower) (JObj c')"
  define m' where "m' = m\<lparr>globalConfig := fst (loadGlobalConfig io),
      projectConfig := fst (loadProjectConfig io), mergedConfig := Some result\<rparr>"
  have pc: "plain (JObj c')" unfolding c'_def using assms(4) by (rule sanitize_plain(2))
  have ne: "splitDot key \<noteq> []" by (rule splitDot_nonempty)
  have mc: "mergeConfigurations (fst (loadGlobalConfig io)) (fst (loadProjectConfig io)) (JObj c)
              = Some (Inr result)"
    using mergeConfigurations_plain[OF assms(3,4), of g] assms(1,2)
    by (simp add: result_def lower_def c'_def)
  have a: "loadConfiguration io m (JObj c)
             = Some (Inr result, m', snd (loadGlobalConfig io) @ snd (loadProjectConfig io))"
    using loadConfiguration_returns[OF mc, of m] by (simp add: m'_def)
  have b: "mergedConfig m' = Some result" by (simp add: m'_def)
  have l1: "objPath (JObj lower) (splitDot key) = layer (JObj p) (splitDot key) (objPath (JObj g) (splitDot key))"
    unfolding lower_def using objPath_merged[OF assms(3) _ ne, of "JObj g"] by simp
  have c: "objPath (JObj result) (splitDot key)
             = layer (JObj c') (splitDot key) (layer (JObj p) (splitDot key) (objPath (JObj g) (splitDot key)))"
    unfolding result_def using objPath_merged[OF pc _ ne, of "JObj lower"] l1 by simp
  have d: "\<forall>v. objPath (JObj result) (splitDot key) = Some v \<longrightarrow> get m' key d = Inr v"
    using b by (auto simp: get_def getNestedValue_def objPath_getNestedKeys)
  have "loadConfiguration io m (JObj c)
             = Some (Inr result, m', snd (loadGlobalConfig io) @ snd (loadProjectConfig io))
        \<and> mergedConfig m' = Some result
        \<and> objPath (JObj result) (splitDot key)
             = layer (JObj (filter (\<lambda>kv. snd kv \<noteq> JUndefined) c)) (splitDot key)
                 (layer (JObj p) (splitDot key) (objPath (JObj g) (splitDot key)))
        \<and> (\<forall>v. objPath (JObj result) (splitDot key) = Some v \<longrightarrow> get m' key d = Inr v)"
    using a b c d unfolding c'_def by (intro conjI)
  then show ?thesis by - (rule exI, rule exI, rule exI, assumption)
qed

theorem load_get_precedence_witness:
  "get (loaded deployGlobal deployProject deployCli) ''deploy.defaultCategory'' JUndefined
     = Inr (JStr ''cli-category'')
   \<and> get (loaded deployGlobal deployProject deployCli) ''deploy.defaultTags'' JUndefined
     = Inr (JArr [JStr ''project-tag''])
   \<and> get (loaded deployGlobal deployProject deployCli) ''option3'' JUndefined
     = Inr (JStr ''global-value3'')
   \<and> get (loaded deployGlobal deployProject deployCli) ''deploy'' JUndefined
     = Inr (JObj [(''defaultTags'', JArr [JStr ''project-tag'']),
                  (''defaultCategory'', JStr ''cli-category''),
                  (''defaultUtility'', JStr ''github-copilot'')])"
proof -
  have pp: "plain (JObj deployProject)"
    by (simp add: deployProject_def)
  have pc: "plain (JObj deployCli)"
    by (simp add: deployCli_def)
  have c: "filter (\<lambda>kv. snd kv \<noteq> JUndefined) deployCli = deployCli"
    by (simp add: deployCli_def)
  have use: "get (loaded deployGlobal deployProject deployCli) key JUndefined = Inr v"
    if "layer (JObj deployCli) (splitDot key)
          (layer (JObj deployProject) (splitDot key) (objPath (JObj deployGlobal) (splitDot key))) = Some v"
    for key v
  proof -
    from load_get_precedence [OF fst_loadGlobal_filesOf fst_loadProject_filesOf pp pc,
        where m = new_manager and key = key and d = JUndefined, of deployGlobal]
    obtain result m' warnings where
      l: "loadConfiguration (filesOf deployGlobal deployProject) new_manager (JObj deployCli)
            = Some (Inr result, m', warnings)"
      and o: "objPath (JObj result) (splitDot key)
               = layer (JObj (filter (\<lambda>kv. snd kv \<noteq> JUndefined) deployCli)) (splitDot key)
                   (layer (JObj deployProject) (splitDot key) (objPath (JObj deployGlobal) (splitDot key)))"
      and g: "\<forall>v. objPath (JObj result) (splitDot key) = Some v \<longrightarrow> get m' key JUndefined = Inr v"
      by (elim exE conjE) (rule that, assumption+)
    have "loaded deployGlobal deployProject deployCli = m'"
      using l by (simp add: loaded_def)
    then show ?thesis using o g that c by simp
  qed
  have e: "mergeOf (JObj [(''defaultTags'', JArr [JStr ''global-tag'']),
                         (''defaultCategory'', JStr ''global-category'')])
                  (JObj [(''defaultTags'', JArr [JStr ''project-tag'']),
                         (''defaultUtility'', JStr ''github-copilot'')])
             = [(''defaultTags'', JArr [JStr ''project-tag'']),
                (''defaultCategory'', JStr ''global-category''),
                (''defaultUtility'', JStr ''github-copilot'')]"
    by (simp add: mergeOf_def deepMerge_def orEmpty_def assignProp_def)
  have e2: "mergeOf (JObj [(''defaultTags'', JArr [JStr ''project-tag'']),
                          (''defaultCategory'', JStr ''global-category''),
                          (''defaultUtility'', JStr ''github-copilot'')])
                   (JObj [(''defaultCategory'', JStr ''cli-category'')])
             = [(''defaultTags'', JArr [JStr ''project-tag'']),
                (''defaultCategory'', JStr ''cli-category''),
                (''defaultUtility'', JStr ''github-copilot'')]"
    by (simp add: mergeOf_def deepMerge_def orEmpty_def assignProp_def)
  have one: "layer (JObj deployCli) (splitDot ''deploy.defaultCategory'')
          (layer (JObj deployProject) (splitDot ''deploy.defaultCategory'')
             (objPath (JObj deployGlobal) (splitDot ''deploy.defaultCategory'')))
          = Some (JStr ''cli-category'')"
    by (simp add: layer_def over_def deployCli_def deployProject_def deployGlobal_def isObject_def)
  have two: "layer (JObj deployCli) (splitDot ''deploy.defaultTags'')
          (layer (JObj deployProject) (splitDot ''deploy.defaultTags'')
             (objPath (JObj deployGlobal) (splitDot ''deploy.defaultTags'')))
          = Some (JArr [JStr ''project-tag''])"
    by (simp add: layer_def over_def deployCli_def deployProject_def deployGlobal_def isObject_def)
  have three: "layer (JObj deployCli) (splitDot ''option3'')
          (layer (JObj deployProject) (splitDot ''option3'')
             (objPath (JObj deployGlobal) (splitDot ''option3'')))
          = Some (JStr ''global-value3'')"
    by (simp add: layer_def over_def deployCli_def deployProject_def deployGlobal_def isObject_def)
  have four: "layer (JObj deployCli) (splitDot ''deploy'')
          (layer (JObj deployProject) (splitDot ''deploy'')
             (objPath (JObj deployGlobal) (splitDot ''deploy'')))
          = Some (JObj [(''defaultTags'', JArr [JStr ''project-tag'']),
                        (''defaultCategory'', JStr ''cli-category''),
                        (''defaultUtility'', JStr ''github-copilot'')])"
    by (simp add: layer_def over_def deployCli_def deployProject_def deployGlobal_def e e2)
  show ?thesis
    using use [OF one] use [OF two] use [OF three] use [OF four] by (intro conjI)
qed

theorem load_get_precedence_counterexample:
  "objPath (JObj [(''a'', JObj [(''b'', JNum 1)])]) (splitDot ''a.b'') = Some (JNum 1)
   \<and> objPath (JObj [(''a'', JObj [(''b'', JNum 2)])]) (splitDot ''a.b'') = Some (JNum 2)
   \<and> objPath (JObj [(''a'', JNum 7)]) (splitDot ''a.b'') = None
   \<and> get (loaded [(''a'', JObj [(''b'', JNum 1)])] [(''a'', JObj [(''b'', JNum 2)])] [(''a'', JNum 7)])
        ''a.b'' JUndefined = Inr JUndefined
   \<and> objPath (JObj [(''a'', JObj [(''x'', JNum 1)])]) (splitDot ''a'') = Some (JObj [(''x'', JNum 1)])
   \<and> objPath (JObj [(''a'', JObj [(''y'', JNum 2)])]) (splitDot ''a'') = Some (JObj [(''y'', JNum 2)])
   \<and> objPath (JObj []) (splitDot ''a'') = None
   \<and> get (loaded [(''a'', JObj [(''x'', JNum 1)])] [(''a'', JObj [(''y'', JNum 2)])] [])
        ''a'' JUndefined = Inr (JObj [(''x'', JNum 1), (''y'', JNum 2)])"
proof -
  have m1: "mergeConfigurations (JObj [(''a'', JObj [(''b'', JNum 1)])]) (JObj [(''a'', JObj [(''b'', JNum 2)])])
              (JObj [(''a'', JNum 7)]) = Some (Inr [(''a'', JNum 7)])"
    by (simp add: mergeConfigurations_def andThen_def deepMerge_def orEmpty_def assignProp_def
        sanitizeCliOptions_def readProp_def lookupIn_def isObject_def)
  have m2: "mergeConfigurations (JObj [(''a'', JObj [(''x'', JNum 1)])]) (JObj [(''a'', JObj [(''y'', JNum 2)])])
              (JObj []) = Some (Inr [(''a'', JObj [(''x'', JNum 1), (''y'', JNum 2)])])"
    by (simp add: mergeConfigurations_def andThen_def deepMerge_def orEmpty_def assignProp_def
        sanitizeCliOptions_def readProp_def lookupIn_def isObject_def)
  show ?thesis
    by (simp add: loaded_eval[OF m1] loaded_eval[OF m2] lookupIn_def readProp_def)
qed

section \<open>Setting a key path\<close>

text \<open>
  Claim C10 says that for every key path \<open>set\<close> makes a following \<open>get\<close> of that path
  return the value. The code does not do this for a path whose last segment is
  \<open>__proto__\<close>: \<open>set('__proto__', 5)\<close> on a new manager assigns through the inherited setter,
  which ignores a primitive, so the configuration stays \<open>{}\<close>, and \<open>get('__proto__')\<close> finds
  the inherited property and returns \<open>Object.prototype\<close>, not \<open>5\<close>. The same happens one
  level down: \<open>set('a.__proto__', 'v')\<close> makes \<open>a\<close> an empty object and \<open>get\<close> of the path
  returns \<open>Object.prototype\<close>.
\<close>

theorem set_then_get_fails:
  "set_value new_manager ''__proto__'' (JNum 5) = Some (new_manager\<lparr>mergedConfig := Some []\<rparr>)
   \<and> get (new_manager\<lparr>mergedConfig := Some []\<rparr>) ''__proto__'' JUndefined = Inr JObjectPrototype
   \<and> set_value new_manager ''a.__proto__'' (JStr ''v'')
       = Some (new_manager\<lparr>mergedConfig := Some [(''a'', JObj [])]\<rparr>)
   \<and> get (new_manager\<lparr>mergedConfig := Some [(''a'', JObj [])]\<rparr>) ''a.__proto__'' JUndefined
       = Inr JObjectPrototype"
  by (simp add: set_value_def setNestedValue_def assignProp_def get_def getNestedValue_def
      new_manager_def readProp_def lookupIn_def isObject_def
      fromObjectPrototype_def objectPrototypeNames_def)

section \<open>Required keys\<close>

text \<open>
  Claim C5. On a loaded manager, \<open>validateRequiredConfig\<close> throws exactly when some
  required key resolves to \<open>undefined\<close>; the error is a \<open>ValidationError\<close> whose message
  lists all the missing keys, in their order, joined by commas, so every missing key is in
  it. When none is missing it returns. It is a query: no field is assigned.
\<close>

theorem validateRequired_rule:
  assumes "mergedConfig m = Some merged"
  shows "validateRequiredConfig m requiredKeys =
           (if \<exists>key \<in> set requiredKeys. get m key JUndefined = Inr JUndefined
            then Inl (ValidationError (''Missing required configuration: ''
                   @ joinWith '', '' (filter (\<lambda>key. get m key JUndefined = Inr JUndefined) requiredKeys)))
            else Inr ())
         \<and> (\<forall>key \<in> set requiredKeys. get m key JUndefined = Inr JUndefined \<longrightarrow>
               sublist key (''Missing required configuration: ''
                   @ joinWith '', '' (filter (\<lambda>key. get m key JUndefined = Inr JUndefined) requiredKeys)))"
proof -
  let ?missing = "filter (\<lambda>key. get m key JUndefined = Inr JUndefined) requiredKeys"
  have e: "(length ?missing > 0) = (\<exists>key \<in> set requiredKeys. get m key JUndefined = Inr JUndefined)"
    by (auto simp: filter_empty_conv)
  have a: "validateRequiredConfig m requiredKeys =
           (if \<exists>key \<in> set requiredKeys. get m key JUndefined = Inr JUndefined
            then Inl (ValidationError (''Missing required configuration: '' @ joinWith '', '' ?missing))
            else Inr ())"
    using assms e by (simp add: validateRequiredConfig_def missingKeys_def Let_def)
  have b: "sublist key (''Missing required configuration: '' @ joinWith '', '' ?missing)"
    if "key \<in> set requiredKeys" and "get m key JUndefined = Inr JUndefined" for key
  proof -
    from that have "key \<in> set ?missing" by simp
    then have "sublist key (joinWith '', '' ?missing)" by (rule sublist_joinWith)
    then show ?thesis by (rule sublist_prepend)
  qed
  show ?thesis using a b by blast
qed

theorem validateRequired_rule_witness:
  "mergedConfig (loaded [] [] [(''required'', JObj [(''option'', JStr ''x'')])])
     = Some [(''required'', JObj [(''option'', JStr ''x'')])]
   \<and> validateRequiredConfig (loaded [] [] [(''required'', JObj [(''option'', JStr ''x'')])])
       [''missing.option'', ''required.option'', ''other'']
     = Inl (ValidationError ''Missing required configuration: missing.option, other'')
   \<and> sublist ''other'' ''Missing required configuration: missing.option, other''"
proof -
  have mc: "mergeConfigurations (JObj []) (JObj []) (JObj [(''required'', JObj [(''option'', JStr ''x'')])])
              = Some (Inr [(''required'', JObj [(''option'', JStr ''x'')])])"
    by (simp add: mergeConfigurations_def andThen_def deepMerge_def orEmpty_def assignProp_def
        sanitizeCliOptions_def readProp_def lookupIn_def isObject_def
        fromObjectPrototype_def objectPrototypeNames_def)
  have h: "mergedConfig (loaded [] [] [(''required'', JObj [(''option'', JStr ''x'')])])
             = Some [(''required'', JObj [(''option'', JStr ''x'')])]"
    by (rule loaded_merged [OF mc])
  have g: "get (loaded [] [] [(''required'', JObj [(''option'', JStr ''x'')])]) ''missing.option'' JUndefined
             = Inr JUndefined"
          "get (loaded [] [] [(''required'', JObj [(''option'', JStr ''x'')])]) ''required.option'' JUndefined
             = Inr (JStr ''x'')"
          "get (loaded [] [] [(''required'', JObj [(''option'', JStr ''x'')])]) ''other'' JUndefined
             = Inr JUndefined"
    by (simp_all add: loaded_eval [OF mc] lookupIn_def readProp_def
        fromObjectPrototype_def objectPrototypeNames_def)
  show ?thesis
    using validateRequired_rule [OF h, of "[''missing.option'', ''required.option'', ''other'']"] h g
    by simp
qed

section \<open>The not-loaded gate\<close>

text \<open>
  Claim C3, as amended. On a new manager, and on any manager after \<open>reset\<close>, each of
  \<open>get\<close>, \<open>getAll\<close> and \<open>validateRequiredConfig\<close> throws a \<open>ValidationError\<close> with the message
  \<open>Configuration not loaded. Call loadConfiguration() first.\<close>: the class of the error for
  missing required keys, from which only the message tells it apart.
\<close>

theorem not_loaded_gate:
  "get new_manager key d = Inl (ValidationError ''Configuration not loaded. Call loadConfiguration() first.'')
   \<and> getAll new_manager = Inl (ValidationError ''Configuration not loaded. Call loadConfiguration() first.'')
   \<and> validateRequiredConfig new_manager requiredKeys
       = Inl (ValidationError ''Configuration not loaded. Call loadConfiguration() first.'')
   \<and> get (reset m) key d = Inl (ValidationError ''Configuration not loaded. Call loadConfiguration() first.'')
   \<and> getAll (reset m) = Inl (ValidationError ''Configuration not loaded. Call loadConfiguration() first.'')
   \<and> validateRequiredConfig (reset m) requiredKeys
       = Inl (ValidationError ''Configuration not loaded. Call loadConfiguration() first.'')
   \<and> ValidationError ''Configuration not loaded. Call loadConfiguration() first.''
       \<noteq> ValidationError (''Missing required configuration: '' @ joinWith '', '' missing)"
  by (simp add: get_def getAll_def validateRequiredConfig_def new_manager_def reset_def notLoaded_def)

theorem not_loaded_gate_counterexample:
  "get new_manager ''option1'' JUndefined
     = Inl (ValidationError ''Configuration not loaded. Call loadConfiguration() first.'')
   \<and> validateRequiredConfig (loaded [] [] []) [''missing.option'']
     = Inl (ValidationError ''Missing required configuration: missing.option'')
   \<and> error_name (ValidationError ''Configuration not loaded. Call loadConfiguration() first.'')
     = error_name (ValidationError ''Missing required configuration: missing.option'')
   \<and> set_value new_manager ''key'' (JStr ''value'')
     = Some (new_manager\<lparr>mergedConfig := Some [(''key'', JStr ''value'')]\<rparr>)
   \<and> get (new_manager\<lparr>mergedConfig := Some [(''key'', JStr ''value'')]\<rparr>) ''key'' JUndefined
     = Inr (JStr ''value'')"
proof -
  have mc: "mergeConfigurations (JObj []) (JObj []) (JObj []) = Some (Inr [])"
    by (simp add: mergeConfigurations_def andThen_def deepMerge_def orEmpty_def sanitizeCliOptions_def)
  have a: "get new_manager ''option1'' JUndefined
     = Inl (ValidationError ''Configuration not loaded. Call loadConfiguration() first.'')"
    by (simp add: get_def new_manager_def notLoaded_def)
  have b: "validateRequiredConfig (loaded [] [] []) [''missing.option'']
     = Inl (ValidationError ''Missing required configuration: missing.option'')"
    by (simp add: validateRequiredConfig_def missingKeys_def loaded_merged [OF mc]
        loaded_eval [OF mc] lookupIn_def readProp_def
        fromObjectPrototype_def objectPrototypeNames_def)
  have c: "error_name (ValidationError ''Configuration not loaded. Call loadConfiguration() first.'')
     = error_name (ValidationError ''Missing required configuration: missing.option'')"
    by simp
  have d: "set_value new_manager ''key'' (JStr ''value'')
     = Some (new_manager\<lparr>mergedConfig := Some [(''key'', JStr ''value'')]\<rparr>)"
    by (simp add: set_value_def setNestedValue_def assignProp_def new_manager_def)
  have e: "get (new_manager\<lparr>mergedConfig := Some [(''key'', JStr ''value'')]\<rparr>) ''key'' JUndefined
     = Inr (JStr ''value'')"
    by (simp add: get_def getNestedValue_def lookupIn_def readProp_def)
  show ?thesis using a b c d e by (intro conjI)
qed

section \<open>Loading\<close>

text \<open>
  Claim C4. A missing configuration file gives the empty fragment and no warning, one
  that cannot be read or parsed the empty fragment and one warning with the failure's
  message; with both files missing or unreadable and no CLI options the load returns the
  empty configuration. A load gives at most two warnings. Whatever the merge step is,
  the load throws exactly when the merge step throws, and returns the merge result
  otherwise; what it throws is a \<open>FileSystemError\<close> with the message
  \<open>Failed to Failed to load configuration: <message> 'undefined': Unknown error\<close>, which
  contains the message of the error that the merge step threw. \<open>loadConfiguration\<close> is
  this load with \<open>_mergeConfigurations\<close> as the merge step, which does throw on some
  fragments: a project file \<open>{"hasOwnProperty": true}\<close> is read without a warning and makes
  the merge throw, and the load throws the wrapped error.
\<close>

theorem load_error_rule:
  "loadGlobalConfig (io\<lparr>globalFile := NoFile\<rparr>) = (JObj [], [])
   \<and> loadGlobalConfig (io\<lparr>globalFile := ReadFails msg\<rparr>)
       = (JObj [], [''Warning: Could not load global config: '' @ msg])
   \<and> loadProjectConfig (io\<lparr>projectFile := NoFile\<rparr>) = (JObj [], [])
   \<and> loadProjectConfig (io\<lparr>projectFile := ReadFails msg\<rparr>)
       = (JObj [], [''Warning: Could not load project config: '' @ msg])
   \<and> loadConfiguration (io\<lparr>globalFile := ReadFails msg, projectFile := ReadFails msg'\<rparr>) m (JObj [])
       = Some (Inr [], m\<lparr>globalConfig := JObj [], projectConfig := JObj [], mergedConfig := Some []\<rparr>,
               [''Warning: Could not load global config: '' @ msg,
                ''Warning: Could not load project config: '' @ msg'])
   \<and> loadConfiguration (io\<lparr>globalFile := NoFile, projectFile := NoFile\<rparr>) m (JObj [])
       = Some (Inr [], m\<lparr>globalConfig := JObj [], projectConfig := JObj [], mergedConfig := Some []\<rparr>, [])
   \<and> length (snd (snd (loadConfigurationWith mergeStep io m cliOptions))) \<le> 2
   \<and> fst (loadConfigurationWith mergeStep io m cliOptions) =
       (case mergeStep (fst (loadGlobalConfig io)) (fst (loadProjectConfig io))
               (if cliOptions = JUndefined then JObj [] else cliOptions) of
          Inl e \<Rightarrow> Inl (FileSystemError (''Failed to Failed to load configuration: '' @ error_message e
                          @ '' '' @ [CHR 0x27] @ ''undefined'' @ [CHR 0x27] @ '': Unknown error''))
        | Inr r \<Rightarrow> Inr r)
   \<and> (case mergeStep (fst (loadGlobalConfig io)) (fst (loadProjectConfig io))
               (if cliOptions = JUndefined then JObj [] else cliOptions) of
          Inl e \<Rightarrow>
            (case fst (loadConfigurationWith mergeStep io m cliOptions) of
               Inl thrown \<Rightarrow> sublist (error_message e) (error_message thrown)
             | Inr r \<Rightarrow> False)
        | Inr r \<Rightarrow> True)
   \<and> loadConfiguration io m cliOptions =
       map_option (\<lambda>outcome. loadConfigurationWith (\<lambda>g p c. outcome) io m cliOptions)
         (mergeConfigurations (fst (loadGlobalConfig io)) (fst (loadProjectConfig io))
            (if cliOptions = JUndefined then JObj [] else cliOptions))
   \<and> map_option fst (loadConfiguration (io\<lparr>globalFile := NoFile,
           projectFile := FileJson (JObj [(''hasOwnProperty'', JBool True)])\<rparr>) m (JObj []))
       = Some (Inl (FileSystemError (''Failed to Failed to load configuration: ''
                 @ ''source.hasOwnProperty is not a function''
                 @ '' '' @ [CHR 0x27] @ ''undefined'' @ [CHR 0x27] @ '': Unknown error'')))"
proof -
  have e: "mergeConfigurations (JObj []) (JObj []) (JObj []) = Some (Inr [])"
    by (simp add: mergeConfigurations_def andThen_def deepMerge_def orEmpty_def sanitizeCliOptions_def)
  have t: "mergeConfigurations (JObj []) (JObj [(''hasOwnProperty'', JBool True)]) (JObj [])
             = Some (Inl (TypeError ''source.hasOwnProperty is not a function''))"
    by (simp add: mergeConfigurations_def andThen_def deepMerge_def orEmpty_def readProp_def lookupIn_def)
  have a: "loadGlobalConfig (io\<lparr>globalFile := NoFile\<rparr>) = (JObj [], [])"
    "loadGlobalConfig (io\<lparr>globalFile := ReadFails msg\<rparr>)
       = (JObj [], [''Warning: Could not load global config: '' @ msg])"
    "loadProjectConfig (io\<lparr>projectFile := NoFile\<rparr>) = (JObj [], [])"
    "loadProjectConfig (io\<lparr>projectFile := ReadFails msg\<rparr>)
       = (JObj [], [''Warning: Could not load project config: '' @ msg])"
    by (simp_all add: loadGlobalConfig_def loadProjectConfig_def)
  have b: "loadConfiguration (io\<lparr>globalFile := ReadFails msg, projectFile := ReadFails msg'\<rparr>) m (JObj [])
       = Some (Inr [], m\<lparr>globalConfig := JObj [], projectConfig := JObj [], mergedConfig := Some []\<rparr>,
               [''Warning: Could not load global config: '' @ msg,
                ''Warning: Could not load project config: '' @ msg'])"
    by (simp add: loadConfiguration_def loadConfigurationWith_def Let_def loadGlobalConfig_def
        loadProjectConfig_def e)
  have c: "loadConfiguration (io\<lparr>globalFile := NoFile, projectFile := NoFile\<rparr>) m (JObj [])
       = Some (Inr [], m\<lparr>globalConfig := JObj [], projectConfig := JObj [], mergedConfig := Some []\<rparr>, [])"
    by (simp add: loadConfiguration_def loadConfigurationWith_def Let_def loadGlobalConfig_def
        loadProjectConfig_def e)
  have d: "length (snd (snd (loadConfigurationWith mergeStep io m cliOptions))) \<le> 2"
    by (auto simp: loadConfigurationWith_def Let_def loadGlobalConfig_def loadProjectConfig_def
        split: config_file.splits sum.splits)
  have f: "fst (loadConfigurationWith mergeStep io m cliOptions) =
       (case mergeStep (fst (loadGlobalConfig io)) (fst (loadProjectConfig io))
               (if cliOptions = JUndefined then JObj [] else cliOptions) of
          Inl e \<Rightarrow> Inl (FileSystemError (''Failed to Failed to load configuration: '' @ error_message e
                          @ '' '' @ [CHR 0x27] @ ''undefined'' @ [CHR 0x27] @ '': Unknown error''))
        | Inr r \<Rightarrow> Inr r)"
    by (simp add: loadConfigurationWith_def Let_def newFileSystemError_def split: sum.splits)
  have f': "(case mergeStep (fst (loadGlobalConfig io)) (fst (loadProjectConfig io))
               (if cliOptions = JUndefined then JObj [] else cliOptions) of
          Inl e \<Rightarrow>
            (case fst (loadConfigurationWith mergeStep io m cliOptions) of
               Inl thrown \<Rightarrow> sublist (error_message e) (error_message thrown)
             | Inr r \<Rightarrow> False)
        | Inr r \<Rightarrow> True)"
  proof (cases "mergeStep (fst (loadGlobalConfig io)) (fst (loadProjectConfig io))
               (if cliOptions = JUndefined then JObj [] else cliOptions)")
    case (Inl e)
    define pre where "pre = ''Failed to Failed to load configuration: ''"
    define suf where "suf = '' '' @ [CHR 0x27] @ ''undefined'' @ [CHR 0x27] @ '': Unknown error''"
    have w: "fst (loadConfigurationWith mergeStep io m cliOptions)
               = Inl (FileSystemError (pre @ error_message e @ suf))"
      using f Inl unfolding pre_def suf_def by simp
    have "sublist (error_message e) (pre @ error_message e @ suf)"
      by (rule sublist_appendI)
    then show ?thesis using Inl w by simp
  next
    case (Inr r)
    then show ?thesis by simp
  qed
  have g: "loadConfiguration io m cliOptions =
       map_option (\<lambda>outcome. loadConfigurationWith (\<lambda>g p c. outcome) io m cliOptions)
         (mergeConfigurations (fst (loadGlobalConfig io)) (fst (loadProjectConfig io))
            (if cliOptions = JUndefined then JObj [] else cliOptions))"
    by (simp add: loadConfiguration_def split: option.splits)
  have h: "map_option fst (loadConfiguration (io\<lparr>globalFile := NoFile,
           projectFile := FileJson (JObj [(''hasOwnProperty'', JBool True)])\<rparr>) m (JObj []))
       = Some (Inl (FileSystemError (''Failed to Failed to load configuration: ''
                 @ ''source.hasOwnProperty is not a function''
                 @ '' '' @ [CHR 0x27] @ ''undefined'' @ [CHR 0x27] @ '': Unknown error'')))"
    by (simp add: loadConfiguration_def loadConfigurationWith_def Let_def loadGlobalConfig_def
        loadProjectConfig_def orEmpty_def t newFileSystemError_def)
  show ?thesis using a b c d f f' g h by (intro conjI)
qed

section \<open>Unsetting a utility's setting\<close>

text \<open>
  Claim C6 says that unsetting \<open>utilities.X.k\<close> leaves every sibling entry of the project
  fragment intact. The code does not do this on a manager on which \<open>set\<close> was called before
  any load. \<open>setUtilityConfig\<close> loads only when \<open>_mergedConfig\<close> is \<open>null\<close> (its comment
  says that it makes sure the configuration is loaded), and \<open>set\<close> has made it an object:
  the load is skipped, \<open>_projectConfig\<close> is still \<open>null\<close>, the edit starts from \<open>{}\<close>, and
  the project file, which held \<open>utilities.X.k\<close> and the sibling \<open>utilities.Y.k2\<close>, is
  overwritten with \<open>{}\<close>. On a new manager the same call loads the file first and writes
  back the fragment with \<open>utilities.X\<close> removed and \<open>utilities.Y\<close> kept.
\<close>

theorem unset_utility_after_set:
  "set_value new_manager ''theme'' (JStr ''dark'')
     = Some (new_manager\<lparr>mergedConfig := Some [(''theme'', JStr ''dark'')]\<rparr>)
   \<and> projectFile (filesOf [] utilitiesProject)
     = FileJson (JObj [(''utilities'', JObj [(''X'', JObj [(''k'', JStr ''v'')]),
                                              (''Y'', JObj [(''k2'', JBool True)])])])
   \<and> map_option (map_sum id (\<lambda>(m', io'). projectFile io'))
       (setUtilityConfig (filesOf [] utilitiesProject)
          (new_manager\<lparr>mergedConfig := Some [(''theme'', JStr ''dark'')]\<rparr>) ''X'' ''k'' JUndefined)
     = Some (Inr (FileJson (JObj [])))
   \<and> map_option (map_sum id (\<lambda>(m', io'). projectFile io'))
       (setUtilityConfig (filesOf [] utilitiesProject) new_manager ''X'' ''k'' JUndefined)
     = Some (Inr (FileJson (JObj [(''utilities'', JObj [(''Y'', JObj [(''k2'', JBool True)])])])))"
proof -
  have a: "set_value new_manager ''theme'' (JStr ''dark'')
     = Some (new_manager\<lparr>mergedConfig := Some [(''theme'', JStr ''dark'')]\<rparr>)"
    by (simp add: set_value_def setNestedValue_def assignProp_def new_manager_def)
  have b: "projectFile (filesOf [] utilitiesProject)
     = FileJson (JObj [(''utilities'', JObj [(''X'', JObj [(''k'', JStr ''v'')]),
                                              (''Y'', JObj [(''k2'', JBool True)])])])"
    by (simp add: filesOf_def utilitiesProject_def)
  have e1: "editUtilities [] ''X'' ''k'' JUndefined = Some []"
    by (simp add: editUtilities_def ensureNode_def deleteProp_def Let_def js_eval)
  have m1: "mergeConfigurations JNull (JObj []) (JObj []) = Some (Inr [])"
    by (simp add: mergeConfigurations_def deepMerge_def sanitizeCliOptions_def js_eval)
  have c: "map_option (map_sum id (\<lambda>(m', io'). projectFile io'))
       (setUtilityConfig (filesOf [] utilitiesProject)
          (new_manager\<lparr>mergedConfig := Some [(''theme'', JStr ''dark'')]\<rparr>) ''X'' ''k'' JUndefined)
     = Some (Inr (FileJson (JObj [])))"
    by (simp add: setUtilityConfig_def new_manager_def e1 saveProjectConfig_def writeError_def
        filesOf_def m1 Let_def)
  have mc: "mergedConfig new_manager = None"
    by (simp add: new_manager_def)
  have wf: "writeFails (filesOf [] utilitiesProject) = None"
    by (simp add: filesOf_def)
  have e2: "editUtilities utilitiesProject ''X'' ''k'' JUndefined
              = Some [(''utilities'', JObj [(''Y'', JObj [(''k2'', JBool True)])])]"
    by (simp add: editUtilities_def ensureNode_def deleteProp_def Let_def utilitiesProject_def js_eval)
  have m2: "mergeConfigurations (JObj []) (JObj utilitiesProject) (JObj [])
              = Some (Inr utilitiesProject)"
    by (simp add: mergeConfigurations_def deepMerge_def sanitizeCliOptions_def utilitiesProject_def js_eval)
  have m3: "mergeConfigurations (JObj []) (JObj [(''utilities'', JObj [(''Y'', JObj [(''k2'', JBool True)])])])
              (JObj [])
              = Some (Inr [(''utilities'', JObj [(''Y'', JObj [(''k2'', JBool True)])])])"
    by (simp add: mergeConfigurations_def deepMerge_def sanitizeCliOptions_def js_eval)
  have l: "loadConfiguration (filesOf [] utilitiesProject) new_manager (JObj [])
             = Some (Inr utilitiesProject,
                     new_manager\<lparr>globalConfig := JObj [], projectConfig := JObj utilitiesProject,
                                  mergedConfig := Some utilitiesProject\<rparr>, [])"
    by (simp add: loadConfiguration_def loadConfigurationWith_def Let_def loadGlobalConfig_def
        loadProjectConfig_def filesOf_def orEmpty_def m2)
  have d: "map_option (map_sum id (\<lambda>(m', io'). projectFile io'))
       (setUtilityConfig (filesOf [] utilitiesProject) new_manager ''X'' ''k'' JUndefined)
     = Some (Inr (FileJson (JObj [(''utilities'', JObj [(''Y'', JObj [(''k2'', JBool True)])])])))"
    by (simp add: setUtilityConfig_def mc l e2 saveProjectConfig_def writeError_def wf m3 Let_def)
  show ?thesis using a b c d by (intro conjI)
qed

section \<open>Changed files\<close>

text \<open>
  Claim C7. When the file cannot be read, \<open>hasFileChanged\<close> returns true whatever the
  cache is. When it can be read (and its digest is not the empty string, which no hex
  digest is), \<open>hasFileChanged\<close> on a cache object returns true exactly when the cache has no
  entry for the path or the entry is not the digest just computed.
\<close>

theorem hasFileChanged_rule:
  "(\<forall>msg. readFile filePath = ReadError msg
       \<longrightarrow> hasFileChanged readFile sha256hex filePath hashCache = Inr True)
   \<and> (\<forall>bytes. readFile filePath = FileBytes bytes \<and> sha256hex (utf8Decode None bytes) \<noteq> []
       \<longrightarrow> hasFileChanged readFile sha256hex filePath (JObj cache)
            = Inr (map_of cache filePath = None
                   \<or> map_of cache filePath \<noteq> Some (JStr (sha256hex (utf8Decode None bytes)))))"
proof -
  have a: "hasFileChanged readFile sha256hex filePath hashCache = Inr True"
    if "readFile filePath = ReadError msg" for msg
    using that by (simp add: hasFileChanged_def calculateFileHash_def)
  have b: "hasFileChanged readFile sha256hex filePath (JObj cache)
            = Inr (map_of cache filePath = None
                   \<or> map_of cache filePath \<noteq> Some (JStr (sha256hex (utf8Decode None bytes))))"
    if r: "readFile filePath = FileBytes bytes" and h: "sha256hex (utf8Decode None bytes) \<noteq> []" for bytes
  proof (cases "map_of cache filePath")
    case None
    then show ?thesis using r h
      by (simp add: hasFileChanged_def calculateFileHash_def getProp_def)
  next
    case (Some x)
    have "falsy x \<Longrightarrow> x \<noteq> JStr (sha256hex (utf8Decode None bytes))"
      using h by (cases x) auto
    then show ?thesis using r h Some
      by (auto simp: hasFileChanged_def calculateFileHash_def getProp_def)
  qed
  show ?thesis using a b by blast
qed

theorem hasFileChanged_rule_witness:
  "exampleFiles ''/test/missing.md'' = ReadError ''File not found''
   \<and> hasFileChanged exampleFiles exampleDigest ''/test/missing.md'' (JObj exampleHashCache) = Inr True
   \<and> exampleFiles ''/test/unchanged.md'' = FileBytes (asciiBytes ''same content'')
   \<and> exampleDigest (utf8Decode None (asciiBytes ''same content'')) \<noteq> []
   \<and> hasFileChanged exampleFiles exampleDigest ''/test/unchanged.md'' (JObj exampleHashCache) = Inr False"
proof -
  have m: "exampleFiles ''/test/missing.md'' = ReadError ''File not found''"
    by (simp add: exampleFiles_def)
  have u: "exampleFiles ''/test/unchanged.md'' = FileBytes (asciiBytes ''same content'')"
    by (simp add: exampleFiles_def)
  have h: "exampleDigest (utf8Decode None (asciiBytes ''same content''))
             = ''a636bd7cd42060a4d07fa1bfbcc010eb7794c2ba721e1e3e4c20335a15b66eaf''"
    unfolding decode_same_content by (simp add: exampleDigest_def)
  have c: "map_of exampleHashCache ''/test/unchanged.md''
             = Some (JStr ''a636bd7cd42060a4d07fa1bfbcc010eb7794c2ba721e1e3e4c20335a15b66eaf'')"
    by (simp add: exampleHashCache_def)
  have ne: "exampleDigest (utf8Decode None (asciiBytes ''same content'')) \<noteq> []"
    unfolding h by simp
  note r = hasFileChanged_rule [of exampleFiles "''/test/missing.md''" exampleDigest "JObj exampleHashCache"]
  note r' = hasFileChanged_rule [of exampleFiles "''/test/unchanged.md''" exampleDigest JNull exampleHashCache]
  have a: "hasFileChanged exampleFiles exampleDigest ''/test/missing.md'' (JObj exampleHashCache) = Inr True"
    using r m by simp
  have b: "hasFileChanged exampleFiles exampleDigest ''/test/unchanged.md'' (JObj exampleHashCache) = Inr False"
    using r' u ne c h by simp
  show ?thesis using m a u ne b by (intro conjI)
qed



section \<open>Fingerprints\<close>

text \<open>
  Claim C8, as amended. The fingerprint of a file that can be read is the digest of its
  bytes decoded as UTF-8 text, so two files with the same bytes have the same
  fingerprint. For two files that are well-formed UTF-8 (each the encoding of a text of
  Unicode scalar values), the fingerprints are the digests of these texts, different bytes
  are different texts, and so the fingerprints of files with different bytes differ unless
  the digest function gives the two different texts the same digest. The digest function
  is a parameter; nothing is said of files that are not well-formed UTF-8, where bytes
  that differ may decode to the same text.
\<close>

theorem fingerprint_of_text:
  assumes "readFile filePath = FileBytes bytes" and "readFile' filePath' = FileBytes bytes'"
  shows "calculateFileHash readFile sha256hex filePath = Some (sha256hex (utf8Decode None bytes))
       \<and> (bytes = bytes' \<longrightarrow>
            calculateFileHash readFile sha256hex filePath = calculateFileHash readFile' sha256hex filePath')
       \<and> (list_all scalarValue content \<and> list_all scalarValue content'
            \<and> bytes = utf8Encode content \<and> bytes' = utf8Encode content' \<longrightarrow>
              calculateFileHash readFile sha256hex filePath = Some (sha256hex content)
              \<and> calculateFileHash readFile' sha256hex filePath' = Some (sha256hex content')
              \<and> (bytes \<noteq> bytes' \<longrightarrow> content \<noteq> content')
              \<and> (bytes \<noteq> bytes' \<and> (sha256hex content = sha256hex content' \<longrightarrow> content = content') \<longrightarrow>
                   calculateFileHash readFile sha256hex filePath
                     \<noteq> calculateFileHash readFile' sha256hex filePath'))"
proof -
  have a: "calculateFileHash readFile sha256hex filePath = Some (sha256hex (utf8Decode None bytes))"
    using assms(1) by (simp add: calculateFileHash_def)
  have a': "calculateFileHash readFile' sha256hex filePath' = Some (sha256hex (utf8Decode None bytes'))"
    using assms(2) by (simp add: calculateFileHash_def)
  have b: "bytes = bytes' \<longrightarrow>
            calculateFileHash readFile sha256hex filePath = calculateFileHash readFile' sha256hex filePath'"
    using a a' by simp
  have c: "calculateFileHash readFile sha256hex filePath = Some (sha256hex content)
              \<and> calculateFileHash readFile' sha256hex filePath' = Some (sha256hex content')
              \<and> (bytes \<noteq> bytes' \<longrightarrow> content \<noteq> content')
              \<and> (bytes \<noteq> bytes' \<and> (sha256hex content = sha256hex content' \<longrightarrow> content = content') \<longrightarrow>
                   calculateFileHash readFile sha256hex filePath
                     \<noteq> calculateFileHash readFile' sha256hex filePath')"
    if w: "list_all scalarValue content" and w': "list_all scalarValue content'"
      and e: "bytes = utf8Encode content" and e': "bytes' = utf8Encode content'"
  proof -
    have d: "utf8Decode None bytes = content" unfolding e using w by (rule utf8_round_trip)
    have d': "utf8Decode None bytes' = content'" unfolding e' using w' by (rule utf8_round_trip)
    have n: "bytes \<noteq> bytes' \<longrightarrow> content \<noteq> content'" using e e' by auto
    show ?thesis using a a' d d' n by auto
  qed
  show ?thesis using a b c by blast
qed

theorem fingerprint_of_text_witness:
  "exampleFiles ''/test/unchanged.md'' = FileBytes (asciiBytes ''same content'')
   \<and> exampleFiles ''/test/changed.md'' = FileBytes (asciiBytes ''new content'')
   \<and> asciiBytes ''same content'' = utf8Encode (map of_char ''same content'')
   \<and> asciiBytes ''new content'' = utf8Encode (map of_char ''new content'')
   \<and> list_all scalarValue (map of_char ''same content'')
   \<and> list_all scalarValue (map of_char ''new content'')
   \<and> asciiBytes ''same content'' \<noteq> asciiBytes ''new content''
   \<and> exampleDigest (map of_char ''same content'') \<noteq> exampleDigest (map of_char ''new content'')
   \<and> calculateFileHash exampleFiles exampleDigest ''/test/unchanged.md''
       = Some ''a636bd7cd42060a4d07fa1bfbcc010eb7794c2ba721e1e3e4c20335a15b66eaf''
   \<and> calculateFileHash exampleFiles exampleDigest ''/test/unchanged.md''
       \<noteq> calculateFileHash exampleFiles exampleDigest ''/test/changed.md''"
proof -
  define same :: "nat list" where "same = map of_char ''same content''"
  define new :: "nat list" where "new = map of_char ''new content''"
  define bs :: "byte list" where "bs = asciiBytes ''same content''"
  define bn :: "byte list" where "bn = asciiBytes ''new content''"
  define h where "h = calculateFileHash exampleFiles exampleDigest ''/test/unchanged.md''"
  define h' where "h' = calculateFileHash exampleFiles exampleDigest ''/test/changed.md''"
  have u: "exampleFiles ''/test/unchanged.md'' = FileBytes bs"
    by (simp add: exampleFiles_def bs_def)
  have v: "exampleFiles ''/test/changed.md'' = FileBytes bn"
    by (simp add: exampleFiles_def bn_def)
  have es: "bs = utf8Encode same"
    unfolding same_def bs_def by (rule encode_same_content)
  have en: "bn = utf8Encode new"
    unfolding new_def bn_def by (rule encode_new_content)
  have ws: "list_all scalarValue same"
    unfolding same_def by (simp add: scalarValue_def)
  have wn: "list_all scalarValue new"
    unfolding new_def by (simp add: scalarValue_def)
  have nb: "bs \<noteq> bn"
    by (simp add: asciiBytes_def bs_def bn_def)
  have hs: "exampleDigest same = ''a636bd7cd42060a4d07fa1bfbcc010eb7794c2ba721e1e3e4c20335a15b66eaf''"
    unfolding same_def by (simp add: exampleDigest_def)
  have hn: "exampleDigest new = ''6ae8a75555209fd6c44157c0aed8016e763ff435a19cf186f76863140143ff72''"
    unfolding new_def by (simp add: exampleDigest_def)
  have nd: "exampleDigest same \<noteq> exampleDigest new"
    unfolding hs hn by simp
  note t = fingerprint_of_text [where readFile = exampleFiles and filePath = "''/test/unchanged.md''"
      and bytes = bs and readFile' = exampleFiles
      and filePath' = "''/test/changed.md''" and bytes' = bn
      and sha256hex = exampleDigest and content = same and content' = new, OF u v]
  from t have i: "list_all scalarValue same \<and> list_all scalarValue new
            \<and> bs = utf8Encode same \<and> bn = utf8Encode new \<longrightarrow>
              h = Some (exampleDigest same) \<and> h' = Some (exampleDigest new)
              \<and> (bs \<noteq> bn \<longrightarrow> same \<noteq> new)
              \<and> (bs \<noteq> bn \<and> (exampleDigest same = exampleDigest new \<longrightarrow> same = new) \<longrightarrow> h \<noteq> h')"
    unfolding h_def h'_def by (elim conjE)
  have p: "list_all scalarValue same \<and> list_all scalarValue new
            \<and> bs = utf8Encode same \<and> bn = utf8Encode new"
    using ws wn es en by (intro conjI)
  note j = i [THEN mp, OF p]
  have a0: "h = Some (exampleDigest same)"
    using j by (elim conjE)
  have b0: "bs \<noteq> bn \<and> (exampleDigest same = exampleDigest new \<longrightarrow> same = new) \<longrightarrow> h \<noteq> h'"
    using j by (elim conjE)
  have a: "h = Some ''a636bd7cd42060a4d07fa1bfbcc010eb7794c2ba721e1e3e4c20335a15b66eaf''"
    using a0 unfolding hs .
  have q: "bs \<noteq> bn \<and> (exampleDigest same = exampleDigest new \<longrightarrow> same = new)"
    using nb nd by simp
  have b: "h \<noteq> h'"
    using b0 [THEN mp, OF q] .
  show ?thesis
    using u v es en ws wn nb nd a b
    unfolding same_def new_def bs_def bn_def h_def h'_def by (intro conjI)
qed

theorem fingerprint_bytes_counterexample:
  "[0xFF :: byte] \<noteq> [0xFE]
   \<and> length [0xFF :: byte] = length [0xFE :: byte]
   \<and> \<not> (\<exists>sha256hex. calculateFileHash (\<lambda>p. FileBytes [0xFF]) sha256hex ''/test/file.md''
                       \<noteq> calculateFileHash (\<lambda>p. FileBytes [0xFE]) sha256hex ''/test/file.md'')"
  by (simp add: calculateFileHash_def utf8Lead_def)

end
